theory Spec2Isabelle
  imports Main "HOL-Library.Sublist" "HOL-Library.Monad_Syntax"
begin

section \<open>Strings\<close>

text \<open>
  JavaScript strings are sequences of code units. They are modelled as \<open>string\<close>
  (lists of 8-bit characters), that is, as the Latin-1 range of code units. The
  character classes below are the ones the source relies on (\<open>trim\<close>, and the
  classes \<open>\s\<close>, \<open>\d\<close>, \<open>\w\<close> and \<open>.\<close> of its regular expressions), cut down to
  that range.
\<close>

definition isSpace :: "char \<Rightarrow> bool" where
  "isSpace c \<longleftrightarrow> c \<in> set [CHR 0x09, CHR 0x0A, CHR 0x0B, CHR 0x0C, CHR 0x0D, CHR 0x20, CHR 0xA0]"

definition isDigit :: "char \<Rightarrow> bool" where
  "isDigit c \<longleftrightarrow> c \<in> set ''0123456789''"

definition isWord :: "char \<Rightarrow> bool" where
  "isWord c \<longleftrightarrow> c \<in> set ''abcdefghijklmnopqrstuvwxyzABCDEFGHIJKLMNOPQRSTUVWXYZ0123456789_''"

definition isLineTerminator :: "char \<Rightarrow> bool" where
  "isLineTerminator c \<longleftrightarrow> c = CHR 0x0A \<or> c = CHR 0x0D"

text \<open>\<open>String.prototype.trim\<close>: white space and line terminators go from both ends.\<close>

definition trim :: "string \<Rightarrow> string" where
  "trim s = rev (dropWhile isSpace (rev (dropWhile isSpace s)))"

text \<open>\<open>String.prototype.toLowerCase\<close> on the code units \<open>A\<close> to \<open>Z\<close>; every name the
  parser can produce consists of ASCII word characters and \<open>-\<close>.\<close>

definition lowerChar :: "char \<Rightarrow> char" where
  "lowerChar c = (case map_of (zip ''ABCDEFGHIJKLMNOPQRSTUVWXYZ'' ''abcdefghijklmnopqrstuvwxyz'') c of
                    Some l \<Rightarrow> l | None \<Rightarrow> c)"

definition toLowerCase :: "string \<Rightarrow> string" where
  "toLowerCase s = map lowerChar s"

definition startsWith :: "string \<Rightarrow> string \<Rightarrow> bool" where
  "startsWith s p \<longleftrightarrow> take (length p) s = p"

definition endsWith :: "string \<Rightarrow> string \<Rightarrow> bool" where
  "endsWith s p \<longleftrightarrow> startsWith (rev s) (rev p)"

text \<open>\<open>s.indexOf(d)\<close>: the first index at which \<open>d\<close> occurs in \<open>s\<close>, or \<open>-1\<close>.\<close>

fun strIndexOf :: "string \<Rightarrow> string \<Rightarrow> int" where
  "strIndexOf [] d = (if d = [] then 0 else -1)"
| "strIndexOf (c # s) d =
     (if startsWith (c # s) d then 0
      else (let r = strIndexOf s d in if r < 0 then -1 else r + 1))"

definition strIncludes :: "string \<Rightarrow> string \<Rightarrow> bool" where
  "strIncludes s d \<longleftrightarrow> strIndexOf s d \<noteq> -1"

text \<open>\<open>s.slice(a, b)\<close> and \<open>s.slice(a)\<close>: a negative index counts from the end.\<close>

definition sliceIndex :: "nat \<Rightarrow> int \<Rightarrow> nat" where
  "sliceIndex n i = (if i < 0 then nat (max (int n + i) 0) else min (nat i) n)"

definition slice :: "string \<Rightarrow> int \<Rightarrow> int option \<Rightarrow> string" where
  "slice s a b =
     (let n = length s;
          lo = sliceIndex n a;
          hi = (case b of None \<Rightarrow> n | Some e \<Rightarrow> sliceIndex n e)
      in take (hi - lo) (drop lo s))"

text \<open>\<open>parseInt(ds, 10)\<close> on a string of decimal digits, as an unbounded natural
  number (the source only applies it to matches of \<open>\d+\<close>; a double's loss of
  precision beyond \<open>2^53\<close> is not modelled).\<close>

definition digitVal :: "char \<Rightarrow> nat" where
  "digitVal c = (case map_of (zip ''0123456789'' [0, 1, 2, 3, 4, 5, 6, 7, 8, 9]) c of
                   Some d \<Rightarrow> d | None \<Rightarrow> 0)"

definition parseInt :: "string \<Rightarrow> nat" where
  "parseInt ds = foldl (\<lambda>acc c. 10 * acc + digitVal c) 0 ds"

section \<open>The document tree\<close>

text \<open>
  The tree provider is an external collaborator. Its trees are modelled as a
  datatype; a node reference (the identity of a \<open>Node\<close> object) is the path of child
  indices from the document root, and an attribute node is its owner element's
  path together with the attribute's name. Every function below takes the shared
  document \<open>doc\<close> that the references point into.
\<close>

datatype dnode =
    Document "dnode list"
  | Element string "(string \<times> string) list" "dnode list"
  | Text string
  | Comment string

type_synonym path = "nat list"

datatype nref = NodeRef path | AttrRef path string

fun childrenOf :: "dnode \<Rightarrow> dnode list" where
  "childrenOf (Document cs) = cs"
| "childrenOf (Element t as cs) = cs"
| "childrenOf (Text d) = []"
| "childrenOf (Comment d) = []"

fun nodeAt :: "dnode \<Rightarrow> path \<Rightarrow> dnode option" where
  "nodeAt n [] = Some n"
| "nodeAt n (i # p) =
     (if i < length (childrenOf n) then nodeAt (childrenOf n ! i) p else None)"

fun isElement :: "dnode \<Rightarrow> bool" where
  "isElement (Element t as cs) = True"
| "isElement n = False"

fun tagName :: "dnode \<Rightarrow> string" where
  "tagName (Element t as cs) = t"
| "tagName n = []"

fun getAttributeOf :: "dnode \<Rightarrow> string \<Rightarrow> string option" where
  "getAttributeOf (Element t as cs) name = map_of as name"
| "getAttributeOf n name = None"

text \<open>\<open>nodeType\<close>: 1 element, 2 attribute, 3 text, 8 comment, 9 document.\<close>

fun kindOf :: "dnode \<Rightarrow> nat" where
  "kindOf (Document cs) = 9"
| "kindOf (Element t as cs) = 1"
| "kindOf (Text d) = 3"
| "kindOf (Comment d) = 8"

fun nodeType :: "dnode \<Rightarrow> nref \<Rightarrow> nat" where
  "nodeType doc (AttrRef p name) = 2"
| "nodeType doc (NodeRef p) = (case nodeAt doc p of Some n \<Rightarrow> kindOf n | None \<Rightarrow> 0)"

text \<open>\<open>textContent\<close>: the data of the text nodes below an element in tree order,
  the data of a text or comment node, \<open>null\<close> for a document.\<close>

fun textOf :: "dnode \<Rightarrow> string" where
  "textOf (Document cs) = concat (map textOf cs)"
| "textOf (Element t as cs) = concat (map textOf cs)"
| "textOf (Text d) = d"
| "textOf (Comment d) = []"

fun textContentOf :: "dnode \<Rightarrow> string option" where
  "textContentOf (Document cs) = None"
| "textContentOf (Comment d) = Some d"
| "textContentOf n = Some (textOf n)"

fun attrValue :: "dnode \<Rightarrow> path \<Rightarrow> string \<Rightarrow> string" where
  "attrValue doc p name =
     (case nodeAt doc p of
        Some n \<Rightarrow> (case getAttributeOf n name of Some v \<Rightarrow> v | None \<Rightarrow> [])
      | None \<Rightarrow> [])"

fun textContent :: "dnode \<Rightarrow> nref \<Rightarrow> string option" where
  "textContent doc (AttrRef p name) = Some (attrValue doc p name)"
| "textContent doc (NodeRef p) = (case nodeAt doc p of Some n \<Rightarrow> textContentOf n | None \<Rightarrow> None)"

fun getAttribute :: "dnode \<Rightarrow> nref \<Rightarrow> string \<Rightarrow> string option" where
  "getAttribute doc (AttrRef p a) name = None"
| "getAttribute doc (NodeRef p) name =
     (case nodeAt doc p of Some n \<Rightarrow> getAttributeOf n name | None \<Rightarrow> None)"

definition hasAttribute :: "dnode \<Rightarrow> nref \<Rightarrow> string \<Rightarrow> bool" where
  "hasAttribute doc r name \<longleftrightarrow> getAttribute doc r name \<noteq> None"

text \<open>
  What the tree provider computes and this repository only calls: markup
  serialization and native CSS matching. \<open>querySelectorAll doc p q\<close> is the list of
  elements below the node at \<open>p\<close> that match the selector \<open>q\<close>, in document order,
  or \<open>None\<close> when the matcher rejects \<open>q\<close> (it throws).

  The record also carries the one resource of the JavaScript engine that the
  parser can exhaust: \<open>callStack\<close> is the number of nested activations of
  \<open>parsePredicateContent\<close> that fit on the call stack when \<open>parseXPath\<close> is
  entered. One activation more throws \<open>RangeError\<close>.
\<close>

record provider =
  outerHTML :: "dnode \<Rightarrow> string"
  innerHTML :: "dnode \<Rightarrow> string"
  querySelectorAll :: "dnode \<Rightarrow> path \<Rightarrow> string \<Rightarrow> path list option"
  callStack :: nat

section \<open>The Selector result abstraction\<close>

text \<open>
  \<open>Selector\<close> holds node references; its subclass \<open>TextSelector\<close> holds strings and
  passes an empty node list to the base class. The second field is the selector
  text kept for diagnostics.
\<close>

datatype selector =
    Selector "nref list" string
  | TextSelector "string list" string

fun nodesOf :: "selector \<Rightarrow> nref list" where
  "nodesOf (Selector ns q) = ns"
| "nodesOf (TextSelector vs q) = []"

fun selectorText :: "selector \<Rightarrow> string" where
  "selectorText (Selector ns q) = q"
| "selectorText (TextSelector vs q) = q"

fun ok :: "selector \<Rightarrow> bool" where
  "ok (Selector ns q) \<longleftrightarrow> length ns > 0"
| "ok (TextSelector vs q) \<longleftrightarrow> length vs > 0"

fun count :: "selector \<Rightarrow> nat" where
  "count (Selector ns q) = length ns"
| "count (TextSelector vs q) = length vs"

text \<open>The value \<open>getall\<close> computes for one node, before empty strings are dropped.\<close>

definition trimmedText :: "dnode \<Rightarrow> nref \<Rightarrow> string" where
  "trimmedText doc r = (case textContent doc r of Some t \<Rightarrow> trim t | None \<Rightarrow> [])"

definition nodeValue :: "provider \<Rightarrow> dnode \<Rightarrow> nref \<Rightarrow> string" where
  "nodeValue P doc r =
     (if nodeType doc r = 2 then (case r of AttrRef p name \<Rightarrow> attrValue doc p name | NodeRef p \<Rightarrow> [])
      else if nodeType doc r = 3 then trimmedText doc r
      else if nodeType doc r = 1 then
        (case r of NodeRef p \<Rightarrow> (case nodeAt doc p of Some n \<Rightarrow> outerHTML P n | None \<Rightarrow> [])
                 | AttrRef p name \<Rightarrow> [])
      else trimmedText doc r)"

fun getall :: "provider \<Rightarrow> dnode \<Rightarrow> selector \<Rightarrow> string list" where
  "getall P doc (Selector ns q) = filter (\<lambda>v. v \<noteq> []) (map (nodeValue P doc) ns)"
| "getall P doc (TextSelector vs q) = vs"

text \<open>\<open>get(defaultValue?)\<close>: the optional argument is an \<open>option\<close>, and so is the
  result (\<open>None\<close> is \<open>null\<close>).\<close>

fun get :: "provider \<Rightarrow> dnode \<Rightarrow> selector \<Rightarrow> string option \<Rightarrow> string option" where
  "get P doc (Selector ns q) defaultValue =
     (case getall P doc (Selector ns q) of [] \<Rightarrow> defaultValue | v # vs \<Rightarrow> Some v)"
| "get P doc (TextSelector vs q) defaultValue =
     (case vs of [] \<Rightarrow> defaultValue | v # vs' \<Rightarrow> Some v)"

fun orElse :: "selector \<Rightarrow> selector \<Rightarrow> selector" where
  "orElse this fallback = (if ok this then this else fallback)"

fun first :: "selector \<Rightarrow> selector" where
  "first (Selector ns q) = (case ns of [] \<Rightarrow> Selector [] q | n # ns' \<Rightarrow> Selector [n] q)"
| "first (TextSelector vs q) = (case vs of [] \<Rightarrow> TextSelector [] q | v # vs' \<Rightarrow> TextSelector [v] q)"

fun lastSel :: "selector \<Rightarrow> selector" where
  "lastSel (Selector ns q) = (if length ns = 0 then Selector [] q else Selector [ns ! (length ns - 1)] q)"
| "lastSel (TextSelector vs q) =
     (if length vs = 0 then TextSelector [] q else TextSelector [vs ! (length vs - 1)] q)"

text \<open>\<open>eq(index)\<close>: an index outside the array reads \<open>undefined\<close>.\<close>

fun eq :: "selector \<Rightarrow> int \<Rightarrow> selector" where
  "eq (Selector ns q) i =
     (if 0 \<le> i \<and> nat i < length ns then Selector [ns ! nat i] q else Selector [] q)"
| "eq (TextSelector vs q) i =
     (if 0 \<le> i \<and> nat i < length vs then TextSelector [vs ! nat i] q else TextSelector [] q)"

fun toArray :: "selector \<Rightarrow> selector list" where
  "toArray (Selector ns q) = map (\<lambda>n. Selector [n] q) ns"
| "toArray (TextSelector vs q) = map (\<lambda>v. TextSelector [v] q) vs"

definition documentElement :: "dnode \<Rightarrow> dnode option" where
  "documentElement d = find isElement (childrenOf d)"

text \<open>\<open>html()\<close> and \<open>outerHtml()\<close> look at the first node only.\<close>

definition html :: "provider \<Rightarrow> dnode \<Rightarrow> selector \<Rightarrow> string option" where
  "html P doc s =
     (case nodesOf s of
        [] \<Rightarrow> None
      | r # rs \<Rightarrow>
          if nodeType doc r = 9 then
            (case r of NodeRef p \<Rightarrow>
               (case Option.bind (nodeAt doc p) documentElement of
                  Some e \<Rightarrow> Some (outerHTML P e) | None \<Rightarrow> None)
             | AttrRef p name \<Rightarrow> None)
          else if nodeType doc r = 1 then
            (case r of NodeRef p \<Rightarrow> map_option (innerHTML P) (nodeAt doc p)
             | AttrRef p name \<Rightarrow> None)
          else None)"

definition outerHtml :: "provider \<Rightarrow> dnode \<Rightarrow> selector \<Rightarrow> string option" where
  "outerHtml P doc s =
     (case nodesOf s of
        [] \<Rightarrow> None
      | r # rs \<Rightarrow>
          if nodeType doc r = 9 then
            (case r of NodeRef p \<Rightarrow>
               (case Option.bind (nodeAt doc p) documentElement of
                  Some e \<Rightarrow> Some (outerHTML P e) | None \<Rightarrow> None)
             | AttrRef p name \<Rightarrow> None)
          else if nodeType doc r = 1 then
            (case r of NodeRef p \<Rightarrow> map_option (outerHTML P) (nodeAt doc p)
             | AttrRef p name \<Rightarrow> None)
          else None)"

section \<open>A reference tree provider\<close>

text \<open>
  A small provider for the concrete examples: markup without escaping or void
  elements, a native matcher that accepts a bare type selector only (a CSS
  identifier), and a call stack of 1000 activations.
\<close>

fun serialize :: "dnode \<Rightarrow> string" where
  "serialize (Document cs) = concat (map serialize cs)"
| "serialize (Element t as cs) =
     ''<'' @ toLowerCase t
       @ concat (map (\<lambda>(k, v). '' '' @ k @ ''=\"'' @ v @ ''\"'') as)
       @ ''>'' @ concat (map serialize cs) @ ''</'' @ toLowerCase t @ ''>''"
| "serialize (Text d) = d"
| "serialize (Comment d) = ''<!--'' @ d @ ''-->''"

fun descPaths :: "dnode \<Rightarrow> path list"
  and descKids :: "nat \<Rightarrow> dnode list \<Rightarrow> path list" where
  "descPaths (Document cs) = descKids 0 cs"
| "descPaths (Element t as cs) = descKids 0 cs"
| "descPaths (Text d) = []"
| "descPaths (Comment d) = []"
| "descKids i [] = []"
| "descKids i (c # cs) = ([i] # map ((#) i) (descPaths c)) @ descKids (Suc i) cs"

definition isTypeSelector :: "string \<Rightarrow> bool" where
  "isTypeSelector q \<longleftrightarrow>
     q \<noteq> [] \<and> q \<noteq> ''-'' \<and> (\<forall>c \<in> set q. isWord c \<or> c = CHR ''-'') \<and> \<not> isDigit (hd q) \<and>
     \<not> (hd q = CHR ''-'' \<and> isDigit (hd (tl q)))"

definition matchType :: "dnode \<Rightarrow> path \<Rightarrow> string \<Rightarrow> path list option" where
  "matchType doc p q =
     (if isTypeSelector q then
        (case nodeAt doc p of
           None \<Rightarrow> Some []
         | Some n \<Rightarrow>
             Some (filter (\<lambda>d. case nodeAt doc d of
                                 Some e \<Rightarrow> isElement e \<and> toLowerCase (tagName e) = toLowerCase q
                               | None \<Rightarrow> False)
                     (map ((@) p) (descPaths n))))
      else None)"

definition basicProvider :: provider where
  "basicProvider = \<lparr> outerHTML = serialize,
                      innerHTML = (\<lambda>n. concat (map serialize (childrenOf n))),
                      querySelectorAll = matchType,
                      callStack = 1000 \<rparr>"

section \<open>Regular expressions of the source\<close>

text \<open>
  The parser recognises its input with regular-expression literals. They are
  embedded as values of \<open>rx\<close> and run by a backtracking matcher that returns every
  way to match in the engine's order of preference (an earlier alternative first,
  a greedy repetition longest first, a lazy one shortest first), so that the first
  result is the match JavaScript reports. Repetition only occurs over a single
  character class in the source's literals. All of them are anchored with \<open>^\<close>;
  \<open>Eos\<close> is \<open>$\<close>.
\<close>

datatype cclass = CDigit | CWord | CWordDash | CSpace | CDot | CQuote | CNotQuote | CNotRParen

fun inClass :: "cclass \<Rightarrow> char \<Rightarrow> bool" where
  "inClass CDigit c = isDigit c"
| "inClass CWord c = isWord c"
| "inClass CWordDash c = (isWord c \<or> c = CHR ''-'')"
| "inClass CSpace c = isSpace c"
| "inClass CDot c = (\<not> isLineTerminator c)"
| "inClass CQuote c = (c = CHR 0x27 \<or> c = CHR 0x22)"
| "inClass CNotQuote c = (\<not> (c = CHR 0x27 \<or> c = CHR 0x22))"
| "inClass CNotRParen c = (c \<noteq> CHR '')'')"

datatype rx =
    Lit string
  | Cls cclass
  | Seq rx rx
  | Alt rx rx
  | Star cclass
  | Plus cclass
  | LazyPlus cclass
  | Opt rx
  | Grp nat rx
  | Eos

type_synonym caps = "(nat \<times> string) list"

text \<open>The inputs left after a run of 0, 1, 2, ... characters of the class.\<close>

fun runSplits :: "(char \<Rightarrow> bool) \<Rightarrow> string \<Rightarrow> string list" where
  "runSplits p [] = [[]]"
| "runSplits p (x # xs) = (x # xs) # (if p x then runSplits p xs else [])"

fun rxRun :: "rx \<Rightarrow> string \<times> caps \<Rightarrow> (string \<times> caps) list" where
  "rxRun (Lit l) (s, c) = (if startsWith s l then [(drop (length l) s, c)] else [])"
| "rxRun (Cls k) (s, c) = (case s of [] \<Rightarrow> [] | x # xs \<Rightarrow> if inClass k x then [(xs, c)] else [])"
| "rxRun (Seq a b) st = concat (map (rxRun b) (rxRun a st))"
| "rxRun (Alt a b) st = rxRun a st @ rxRun b st"
| "rxRun (Star k) (s, c) = map (\<lambda>r. (r, c)) (rev (runSplits (inClass k) s))"
| "rxRun (Plus k) (s, c) = map (\<lambda>r. (r, c)) (rev (tl (runSplits (inClass k) s)))"
| "rxRun (LazyPlus k) (s, c) = map (\<lambda>r. (r, c)) (tl (runSplits (inClass k) s))"
| "rxRun (Opt a) st = rxRun a st @ [st]"
| "rxRun (Grp n a) (s, c) = map (\<lambda>(r, c'). (r, (n, take (length s - length r) s) # c')) (rxRun a (s, c))"
| "rxRun Eos (s, c) = (if s = [] then [(s, c)] else [])"

text \<open>\<open>s.match(/^r/)\<close>: \<open>None\<close> is \<open>null\<close>; otherwise the length of \<open>match[0]\<close> and the
  captured groups. \<open>grp\<close> reads \<open>match[n]\<close> (\<open>None\<close> is \<open>undefined\<close>).\<close>

definition rxMatch :: "rx \<Rightarrow> string \<Rightarrow> (nat \<times> caps) option" where
  "rxMatch r s = (case rxRun r (s, []) of [] \<Rightarrow> None | (s', c) # rest \<Rightarrow> Some (length s - length s', c))"

definition grp :: "nat \<times> caps \<Rightarrow> nat \<Rightarrow> string option" where
  "grp mt n = map_of (snd mt) n"

definition grpStr :: "nat \<times> caps \<Rightarrow> nat \<Rightarrow> string" where
  "grpStr mt n = (case grp mt n of Some v \<Rightarrow> v | None \<Rightarrow> [])"

fun seqs :: "rx list \<Rightarrow> rx" where
  "seqs [] = Lit []"
| "seqs [r] = r"
| "seqs (r # rs) = Seq r (seqs rs)"

fun alts :: "rx list \<Rightarrow> rx" where
  "alts [] = Lit []"
| "alts [r] = r"
| "alts (r # rs) = Alt r (alts rs)"

abbreviation ws :: rx where "ws \<equiv> Star CSpace"

text \<open>\<open>['"]([^'"]*)['"]\<close> with the group numbered \<open>n\<close>.\<close>

definition quoted :: "nat \<Rightarrow> rx" where
  "quoted n = seqs [Cls CQuote, Grp n (Star CNotQuote), Cls CQuote]"

text \<open>\<open>(?:text\(\)|\.)\<close>\<close>

definition textOrDot :: rx where
  "textOrDot = Alt (Lit ''text()'') (Lit ''.'')"

section \<open>The model of steps and predicates\<close>

datatype axis =
    Child | Descendant | Self | Attribute | Parent | Ancestor
  | FollowingSibling | PrecedingSibling | Following | Preceding

datatype nodeTest = NameTest string | AnyTest | TextTest | NodeTest

datatype cmpOp = Lt | Gt | Le | Ge | EqOp

datatype predicate =
    Position nat
  | AttrExists string
  | AttrEquals string string
  | TextEquals string
  | TextContains string
  | AttrContains string string
  | AttrStartsWith string string
  | AttrEndsWith string string
  | TextStartsWith string
  | TextEndsWith string
  | HasChild string
  | NotP predicate
  | AndP predicate predicate
  | OrP predicate predicate
  | AttrNotEquals string string
  | TextNotEquals string
  | NormalizeSpaceEquals string
  | Last
  | PositionCompare cmpOp nat
  | CountCompare string cmpOp nat
  | StringLengthCompare cmpOp nat
  | SubstringEquals nat "nat option" string
  | SubstringBeforeEquals string string
  | SubstringAfterEquals string string
  | TranslateEquals string string string

record step =
  axis :: axis
  nodeTest :: nodeTest
  predicates :: "predicate list"

section \<open>The expression parser\<close>

subsection \<open>Splitting at depth 0\<close>

text \<open>
  \<open>splitUnion\<close> and \<open>splitByOperator\<close> scan the string once, tracking the bracket
  depth (which may go negative) and the quote that is open. The loop state is
  \<open>(parts, current, depth, inString)\<close>; one iteration of the loop body is a step
  function on it.
\<close>

type_synonym splitState = "string list \<times> string \<times> int \<times> char option"

definition splitUnionStep :: "splitState \<Rightarrow> char \<Rightarrow> splitState" where
  "splitUnionStep st c =
     (case st of (parts, current, depth, inString) \<Rightarrow>
        (case inString of
           Some q \<Rightarrow> (parts, current @ [c], depth, if c = q then None else Some q)
         | None \<Rightarrow>
             if c = CHR 0x22 \<or> c = CHR 0x27 then (parts, current @ [c], depth, Some c)
             else if c = CHR ''('' \<or> c = CHR ''['' then (parts, current @ [c], depth + 1, None)
             else if c = CHR '')'' \<or> c = CHR '']'' then (parts, current @ [c], depth - 1, None)
             else if depth = 0 \<and> c = CHR ''|'' then (parts @ [trim current], [], depth, None)
             else (parts, current @ [c], depth, None)))"

definition splitFinish :: "splitState \<Rightarrow> string list" where
  "splitFinish st =
     (case st of (parts, current, depth, inString) \<Rightarrow>
        if trim current \<noteq> [] then parts @ [trim current] else parts)"

definition splitUnion :: "string \<Rightarrow> string list" where
  "splitUnion expr = splitFinish (foldl splitUnionStep ([], [], 0, None) expr)"

text \<open>
  The source calls \<open>splitByOperator\<close> with the operators \<open>" or "\<close> and \<open>" and "\<close>
  only. \<open>splitByOperatorStep\<close> looks at the character \<open>c\<close> and the input \<open>cs\<close> after
  it, and also returns how many further characters the scan skips.
\<close>

definition splitByOperatorStep ::
  "string \<Rightarrow> char \<Rightarrow> string \<Rightarrow> splitState \<Rightarrow> splitState \<times> nat" where
  "splitByOperatorStep operator c cs st =
     (case st of (parts, current, depth, inString) \<Rightarrow>
        (case inString of
           Some q \<Rightarrow> ((parts, current @ [c], depth, if c = q then None else Some q), 0)
         | None \<Rightarrow>
             if c = CHR 0x22 \<or> c = CHR 0x27 then ((parts, current @ [c], depth, Some c), 0)
             else if c = CHR ''('' \<or> c = CHR ''['' then ((parts, current @ [c], depth + 1, None), 0)
             else if c = CHR '')'' \<or> c = CHR '']'' then ((parts, current @ [c], depth - 1, None), 0)
             else if depth = 0 \<and> take (length operator) (c # cs) = operator then
               ((parts @ [trim current], [], depth, None), length operator - 1)
             else ((parts, current @ [c], depth, None), 0)))"

function splitByOperatorLoop :: "string \<Rightarrow> string \<Rightarrow> splitState \<Rightarrow> string list" where
  "splitByOperatorLoop operator [] st = splitFinish st"
| "splitByOperatorLoop operator (c # cs) st =
     splitByOperatorLoop operator (drop (snd (splitByOperatorStep operator c cs st)) cs)
       (fst (splitByOperatorStep operator c cs st))"
  by pat_completeness auto
termination
  by (relation "measure (\<lambda>(operator, cs, st). length cs)") simp_all

definition splitByOperator :: "string \<Rightarrow> string \<Rightarrow> string list" where
  "splitByOperator content operator = splitByOperatorLoop operator content ([], [], 0, None)"

subsection \<open>Brackets\<close>

text \<open>
  \<open>findMatchingBracket\<close>: the index of the \<open>]\<close> that brings the depth back to 0,
  or \<open>None\<close> for \<open>-1\<close>. The step function returns either the index found or the
  next \<open>(depth, inString)\<close>.
\<close>

definition bracketStep :: "char \<Rightarrow> int \<times> char option \<Rightarrow> bool \<times> int \<times> char option" where
  "bracketStep c st =
     (case st of (depth, inString) \<Rightarrow>
        (case inString of
           Some q \<Rightarrow> (False, depth, if c = q then None else Some q)
         | None \<Rightarrow>
             if c = CHR 0x22 \<or> c = CHR 0x27 then (False, depth, Some c)
             else if c = CHR ''['' then (False, depth + 1, None)
             else if c = CHR '']'' then (depth - 1 = 0, depth - 1, None)
             else (False, depth, None)))"

fun findMatchingBracketLoop :: "string \<Rightarrow> nat \<Rightarrow> int \<times> char option \<Rightarrow> nat option" where
  "findMatchingBracketLoop [] i st = None"
| "findMatchingBracketLoop (c # cs) i st =
     (if fst (bracketStep c st) then Some i
      else findMatchingBracketLoop cs (i + 1) (snd (bracketStep c st)))"

definition findMatchingBracket :: "string \<Rightarrow> nat option" where
  "findMatchingBracket expr = findMatchingBracketLoop expr 0 (0, None)"

subsection \<open>Predicate bodies\<close>

definition cmpOfString :: "string \<Rightarrow> cmpOp" where
  "cmpOfString s =
     (if s = ''<'' then Lt else if s = ''>'' then Gt else if s = ''<='' then Le
      else if s = ''>='' then Ge else EqOp)"

text \<open>\<open>(<|>|<=|>=)\<close> and \<open>(<|>|<=|>=|=)\<close> as group \<open>n\<close>.\<close>

definition cmp4 :: "nat \<Rightarrow> rx" where
  "cmp4 n = Grp n (alts [Lit ''<'', Lit ''>'', Lit ''<='', Lit ''>=''])"

definition cmp5 :: "nat \<Rightarrow> rx" where
  "cmp5 n = Grp n (alts [Lit ''<'', Lit ''>'', Lit ''<='', Lit ''>='', Lit ''=''])"

text \<open>The literals of \<open>parsePredicateContent\<close>, in the order of the source.\<close>

definition posRx :: rx where
  "posRx = seqs [Grp 1 (Plus CDigit), Eos]"

definition notRx :: rx where
  "notRx = seqs [Lit ''not'', ws, Lit ''('', ws, Grp 1 (Plus CDot), ws, Lit '')'', Eos]"

definition attrExistsRx :: rx where
  "attrExistsRx = seqs [Lit ''@'', Grp 1 (Plus CWordDash), Eos]"

definition attrEqualsRx :: rx where
  "attrEqualsRx = seqs [Lit ''@'', Grp 1 (Plus CWordDash), ws, Lit ''='', ws, quoted 2]"

definition attrNotEqualsRx :: rx where
  "attrNotEqualsRx = seqs [Lit ''@'', Grp 1 (Plus CWordDash), ws, Lit ''!='', ws, quoted 2]"

definition textEqualsRx :: rx where
  "textEqualsRx = seqs [Lit ''text()'', ws, Lit ''='', ws, quoted 1]"

definition textNotEqualsRx :: rx where
  "textNotEqualsRx = seqs [Lit ''text()'', ws, Lit ''!='', ws, quoted 1]"

definition normalizeSpaceRx :: rx where
  "normalizeSpaceRx =
     seqs [Lit ''normalize-space'', ws, Lit ''('', Opt (Lit ''.''), Lit '')'', ws, Lit ''='', ws, quoted 1]"

definition positionCompareRx :: rx where
  "positionCompareRx = seqs [Lit ''position()'', ws, cmp4 1, ws, Grp 2 (Plus CDigit)]"

definition countCompareRx :: rx where
  "countCompareRx =
     seqs [Lit ''count'', ws, Lit ''('', ws, Grp 1 (Plus CWordDash), ws, Lit '')'', ws, cmp5 2, ws,
           Grp 3 (Plus CDigit)]"

definition stringLengthRx :: rx where
  "stringLengthRx =
     seqs [Lit ''string-length'', ws, Lit ''('', ws, alts [Lit ''text()'', Lit ''.'', ws], ws, Lit '')'',
           ws, cmp5 1, ws, Grp 2 (Plus CDigit)]"

definition substringRx :: rx where
  "substringRx =
     seqs [Lit ''substring'', ws, Lit ''('', ws, textOrDot, ws, Lit '','', ws, Grp 1 (Plus CDigit),
           Opt (seqs [ws, Lit '','', ws, Grp 2 (Plus CDigit)]), ws, Lit '')'', ws, Lit ''='', ws, quoted 3]"

definition substringBeforeRx :: rx where
  "substringBeforeRx =
     seqs [Lit ''substring-before'', ws, Lit ''('', ws, textOrDot, ws, Lit '','', ws, quoted 1, ws,
           Lit '')'', ws, Lit ''='', ws, quoted 2]"

definition substringAfterRx :: rx where
  "substringAfterRx =
     seqs [Lit ''substring-after'', ws, Lit ''('', ws, textOrDot, ws, Lit '','', ws, quoted 1, ws,
           Lit '')'', ws, Lit ''='', ws, quoted 2]"

definition translateRx :: rx where
  "translateRx =
     seqs [Lit ''translate'', ws, Lit ''('', ws, textOrDot, ws, Lit '','', ws, quoted 1, ws, Lit '','',
           ws, quoted 2, ws, Lit '')'', ws, Lit ''='', ws, quoted 3]"

text \<open>\<open>^f\s*\(\s*@([\w-]+)\s*,\s*['"]([^'"]*)['"]\s*\)\<close> and
  \<open>^f\s*\(\s*(?:text\(\)|\.)\s*,\s*['"]([^'"]*)['"]\s*\)\<close> for a function name \<open>f\<close>.\<close>

definition attrFunRx :: "string \<Rightarrow> rx" where
  "attrFunRx f =
     seqs [Lit f, ws, Lit ''('', ws, Lit ''@'', Grp 1 (Plus CWordDash), ws, Lit '','', ws, quoted 2, ws,
           Lit '')'']"

definition textFunRx :: "string \<Rightarrow> rx" where
  "textFunRx f = seqs [Lit f, ws, Lit ''('', ws, textOrDot, ws, Lit '','', ws, quoted 1, ws, Lit '')'']"

definition childRx :: rx where
  "childRx = seqs [Grp 1 (Plus CWordDash), Eos]"

text \<open>
  The chain of \<open>if (match) return ...\<close> statements is a list of recognisers tried in
  order; \<open>viaRx r build\<close> is one \<open>content.match(r)\<close> with the value returned when it
  matches.
\<close>

definition viaRx :: "rx \<Rightarrow> (nat \<times> caps \<Rightarrow> predicate) \<Rightarrow> string \<Rightarrow> predicate option" where
  "viaRx r build content = map_option build (rxMatch r content)"

fun firstSome :: "(string \<Rightarrow> predicate option) list \<Rightarrow> string \<Rightarrow> predicate option" where
  "firstSome [] content = None"
| "firstSome (f # fs) content = (case f content of Some p \<Rightarrow> Some p | None \<Rightarrow> firstSome fs content)"

text \<open>The forms of \<open>parsePredicateContent\<close> that follow \<open>not(...)\<close>; none of them
  recurses.\<close>

definition parsePredicateAtom :: "string \<Rightarrow> predicate option" where
  "parsePredicateAtom =
     firstSome
      [viaRx attrExistsRx (\<lambda>mt. AttrExists (grpStr mt 1)),
       viaRx attrEqualsRx (\<lambda>mt. AttrEquals (grpStr mt 1) (grpStr mt 2)),
       viaRx attrNotEqualsRx (\<lambda>mt. AttrNotEquals (grpStr mt 1) (grpStr mt 2)),
       viaRx textEqualsRx (\<lambda>mt. TextEquals (grpStr mt 1)),
       viaRx textNotEqualsRx (\<lambda>mt. TextNotEquals (grpStr mt 1)),
       viaRx normalizeSpaceRx (\<lambda>mt. NormalizeSpaceEquals (grpStr mt 1)),
       (\<lambda>content. if content = ''last()'' then Some Last else None),
       viaRx positionCompareRx
         (\<lambda>mt. PositionCompare (cmpOfString (grpStr mt 1)) (parseInt (grpStr mt 2))),
       viaRx countCompareRx
         (\<lambda>mt. CountCompare (grpStr mt 1) (cmpOfString (grpStr mt 2)) (parseInt (grpStr mt 3))),
       viaRx stringLengthRx
         (\<lambda>mt. StringLengthCompare (cmpOfString (grpStr mt 1)) (parseInt (grpStr mt 2))),
       viaRx substringRx
         (\<lambda>mt. SubstringEquals (parseInt (grpStr mt 1)) (map_option parseInt (grp mt 2)) (grpStr mt 3)),
       viaRx substringBeforeRx (\<lambda>mt. SubstringBeforeEquals (grpStr mt 1) (grpStr mt 2)),
       viaRx substringAfterRx (\<lambda>mt. SubstringAfterEquals (grpStr mt 1) (grpStr mt 2)),
       viaRx translateRx (\<lambda>mt. TranslateEquals (grpStr mt 1) (grpStr mt 2) (grpStr mt 3)),
       viaRx (attrFunRx ''contains'') (\<lambda>mt. AttrContains (grpStr mt 1) (grpStr mt 2)),
       viaRx (textFunRx ''contains'') (\<lambda>mt. TextContains (grpStr mt 1)),
       viaRx (attrFunRx ''starts-with'') (\<lambda>mt. AttrStartsWith (grpStr mt 1) (grpStr mt 2)),
       viaRx (textFunRx ''starts-with'') (\<lambda>mt. TextStartsWith (grpStr mt 1)),
       viaRx (attrFunRx ''ends-with'') (\<lambda>mt. AttrEndsWith (grpStr mt 1) (grpStr mt 2)),
       viaRx (textFunRx ''ends-with'') (\<lambda>mt. TextEndsWith (grpStr mt 1)),
       viaRx childRx (\<lambda>mt. HasChild (grpStr mt 1))]"

text \<open>The \<open>or\<close>/\<open>and\<close> loops: \<open>result\<close> is replaced only while both it and the
  next operand are non-null.\<close>

definition combineParts ::
  "(predicate \<Rightarrow> predicate \<Rightarrow> predicate) \<Rightarrow> predicate option list \<Rightarrow> predicate option" where
  "combineParts mk rs =
     (case rs of
        [] \<Rightarrow> None
      | r0 # rest \<Rightarrow>
          foldl (\<lambda>result right.
                   case (result, right) of (Some a, Some b) \<Rightarrow> Some (mk a b) | other \<Rightarrow> result)
            r0 rest)"

text \<open>
  Termination of \<open>parsePredicateContent\<close>: it recurses on the operands of a split
  with more than one part and on the argument of \<open>not(...)\<close>, and each of these is
  shorter than the content.
\<close>

lemma length_trim_le: "length (trim s) \<le> length s"
proof -
  have "length (trim s) \<le> length (dropWhile isSpace s)"
    unfolding trim_def by (metis length_dropWhile_le length_rev)
  also have "\<dots> \<le> length s" by (rule length_dropWhile_le)
  finally show ?thesis .
qed

lemma splitByOperatorStep_cases:
  assumes "splitByOperatorStep operator c cs (parts, current, depth, inString) = ((parts', current', depth', inString'), k)"
  shows "(parts' = parts \<and> current' = current @ [c] \<and> k = 0) \<or>
         (parts' = parts @ [trim current] \<and> current' = [] \<and> k = length operator - 1)"
  using assms by (auto simp: splitByOperatorStep_def split: option.splits if_splits)

lemma splitFinish_bound:
  "p \<in> set (splitFinish (parts, current, depth, inString)) \<Longrightarrow> p \<in> set parts \<or> length p \<le> length current"
  by (auto simp: splitFinish_def length_trim_le split: if_splits)

lemma splitByOperatorLoop_bound:
  "p \<in> set (splitByOperatorLoop operator rest (parts, current, depth, inString)) \<Longrightarrow>
   p \<in> set parts \<or> length p \<le> length current + length rest"
proof (induction operator rest "(parts, current, depth, inString)" arbitrary: parts current depth inString rule: splitByOperatorLoop.induct)
  case (1 operator)
  then show ?case using splitFinish_bound by fastforce
next
  case (2 operator c cs)
  obtain parts' current' depth' inString' k where
    st: "splitByOperatorStep operator c cs (parts, current, depth, inString) = ((parts', current', depth', inString'), k)"
    by (metis prod_cases4 surj_pair)
  from 2 st have "p \<in> set parts' \<or> length p \<le> length current' + length (drop k cs)"
    by simp
  moreover from splitByOperatorStep_cases[OF st] have
    "(parts' = parts \<and> current' = current @ [c] \<and> k = 0) \<or>
     (parts' = parts @ [trim current] \<and> current' = [] \<and> k = length operator - 1)" .
  ultimately show ?case
    using length_trim_le[of current] by auto
qed

lemma splitFinish_length: "length (splitFinish (parts, current, depth, inString)) \<le> Suc (length parts)"
  by (simp add: splitFinish_def)

lemma splitByOperatorLoop_strict:
  "length (splitByOperatorLoop operator rest (parts, current, depth, inString)) > Suc (length parts) \<Longrightarrow>
   p \<in> set (splitByOperatorLoop operator rest (parts, current, depth, inString)) \<Longrightarrow>
   p \<in> set parts \<or> length p < length current + length rest"
proof (induction operator rest "(parts, current, depth, inString)" arbitrary: parts current depth inString rule: splitByOperatorLoop.induct)
  case (1 operator)
  then show ?case using splitFinish_length[of parts current depth inString] by simp
next
  case (2 operator c cs)
  obtain parts' current' depth' inString' k where
    st: "splitByOperatorStep operator c cs (parts, current, depth, inString) = ((parts', current', depth', inString'), k)"
    by (metis prod_cases4 surj_pair)
  from splitByOperatorStep_cases[OF st] consider
    (keep) "parts' = parts" "current' = current @ [c]" "k = 0" |
    (cut) "parts' = parts @ [trim current]" "current' = []" "k = length operator - 1"
    by blast
  then show ?case
  proof cases
    case keep
    with 2 st show ?thesis by simp
  next
    case cut
    from 2(3) st have "p \<in> set (splitByOperatorLoop operator (drop k cs) (parts', current', depth', inString'))"
      by simp
    from splitByOperatorLoop_bound[OF this] cut
    show ?thesis using length_trim_le[of current] by auto
  qed
qed

lemma splitByOperator_part_shorter:
  "1 < length (splitByOperator content operator) \<Longrightarrow> p \<in> set (splitByOperator content operator) \<Longrightarrow>
   length p < length content"
  unfolding splitByOperator_def
  using splitByOperatorLoop_strict[where operator=operator and rest=content and parts="[]"
      and current="[]" and depth=0 and inString=None and p=p]
  by simp

lemma runSplits_suffix: "x \<in> set (runSplits p s) \<Longrightarrow> suffix x s"
  by (induction s) (auto simp: suffix_Cons split: if_splits)

lemma in_set_tlD: "x \<in> set (tl xs) \<Longrightarrow> x \<in> set xs"
  by (cases xs) auto

lemma rxRun_suffix: "(s', c') \<in> set (rxRun r (s, c)) \<Longrightarrow> suffix s' s"
proof (induction r arbitrary: s c s' c')
  case (Lit l)
  then show ?case by (auto simp: suffix_drop split: if_splits)
next
  case (Cls k)
  then show ?case by (auto simp: suffix_Cons split: list.splits if_splits)
next
  case (Seq a b)
  then obtain s1 c1 where "(s1, c1) \<in> set (rxRun a (s, c))" "(s', c') \<in> set (rxRun b (s1, c1))"
    by auto
  with Seq.IH show ?case by (meson suffix_order.trans)
next
  case (Grp n a)
  then show ?case by auto
qed (auto dest!: in_set_tlD runSplits_suffix)

lemma rxRun_caps:
  "(s', c') \<in> set (rxRun r (s, c)) \<Longrightarrow> (n, v) \<in> set c' \<Longrightarrow> (n, v) \<in> set c \<or> length v \<le> length s"
proof (induction r arbitrary: s c s' c')
  case (Lit l)
  then show ?case by (auto split: if_splits)
next
  case (Cls k)
  then show ?case by (auto split: list.splits if_splits)
next
  case (Seq a b)
  then obtain s1 c1 where *: "(s1, c1) \<in> set (rxRun a (s, c))" "(s', c') \<in> set (rxRun b (s1, c1))"
    by auto
  from Seq.IH(2)[OF *(2) Seq.prems(2)] have "(n, v) \<in> set c1 \<or> length v \<le> length s1" .
  moreover have "length s1 \<le> length s" using rxRun_suffix[OF *(1)] by (rule suffix_length_le)
  moreover have "(n, v) \<in> set c1 \<Longrightarrow> (n, v) \<in> set c \<or> length v \<le> length s"
    using Seq.IH(1)[OF *(1)] by blast
  ultimately show ?case by auto
next
  case (Grp g a)
  then show ?case by (auto; blast)
next
  case (Alt a b)
  from Alt.prems(1) have "(s', c') \<in> set (rxRun a (s, c)) \<or> (s', c') \<in> set (rxRun b (s, c))"
    by simp
  then show ?case using Alt.IH Alt.prems(2) by blast
next
  case (Opt a)
  from Opt.prems(1) have "(s', c') \<in> set (rxRun a (s, c)) \<or> (s', c') = (s, c)"
    by auto
  then show ?case using Opt.IH Opt.prems(2) by blast
qed auto

lemma startsWith_length: "startsWith s p \<Longrightarrow> length p \<le> length s"
  by (metis startsWith_def length_take min.cobounded1)

lemma rxRun_Seq_Lit:
  "rxRun (Seq (Lit l) r) (s, c) = (if startsWith s l then rxRun r (drop (length l) s, c) else [])"
  by simp

lemma notRx_group_shorter:
  assumes "rxMatch notRx content = Some mt"
  shows "length (grpStr mt 1) < length content"
proof -
  obtain R where nr: "notRx = Seq (Lit ''not'') R"
    by (simp add: notRx_def)
  from assms obtain s' c rest where hd: "rxRun notRx (content, []) = (s', c) # rest"
    and mt: "mt = (length content - length s', c)"
    by (auto simp: rxMatch_def split: list.splits)
  from hd have hd': "(if startsWith content ''not'' then rxRun R (drop (length ''not'') content, []) else []) = (s', c) # rest"
    unfolding nr rxRun_Seq_Lit .
  then have sw: "startsWith content ''not''"
    by (simp split: if_splits)
  then have len: "3 \<le> length content"
    using startsWith_length by fastforce
  from hd' sw have "rxRun R (drop (length ''not'') content, []) = (s', c) # rest"
    by (simp only: if_True)
  then have "(s', c) \<in> set (rxRun R (drop (length ''not'') content, []))"
    by (metis list.set_intros(1))
  note caps = rxRun_caps[OF this]
  show ?thesis
  proof (cases "map_of c 1")
    case None
    then show ?thesis using len by (auto simp: grpStr_def grp_def mt)
  next
    case (Some v)
    then have "(1, v) \<in> set c" by (rule map_of_SomeD)
    from caps[OF this] have "length v \<le> length content - 3" by simp
    with len Some show ?thesis by (simp add: grpStr_def grp_def mt)
  qed
qed

subsection \<open>Exceptions\<close>

text \<open>
  The parser has no \<open>throw\<close> statement. The one exception it can end with is the
  engine's \<open>RangeError\<close> for a call that does not fit on the call stack, and the
  one unbounded chain of nested calls in the parser is \<open>parsePredicateContent\<close>
  calling itself on an operand. A function that can throw returns \<open>Inl\<close> of the
  error.
\<close>

datatype error = RangeError

text \<open>The values of the calls made one after the other, or the error of the first
  call that throws.\<close>

fun collect :: "('e + 'a) list \<Rightarrow> 'e + 'a list" where
  "collect [] = Inr []"
| "collect (r # rs) =
     (case r of
        Inl e \<Rightarrow> Inl e
      | Inr v \<Rightarrow> (case collect rs of Inl e \<Rightarrow> Inl e | Inr vs \<Rightarrow> Inr (v # vs)))"

text \<open>
  \<open>parsePredicateContent\<close>: a bare integer, then the \<open>or\<close> split, the \<open>and\<close> split,
  \<open>not(...)\<close> (which falls through when its argument is not recognised) and the
  remaining forms. \<open>stack\<close> is the number of activations of this function that
  still fit on the call stack, this one included.
\<close>

function parsePredicateContent :: "nat \<Rightarrow> string \<Rightarrow> error + predicate option" where
  "parsePredicateContent stack content0 =
     (if stack = 0 then Inl RangeError
      else
        (let content = trim content0 in
         case rxMatch posRx content of
           Some mt \<Rightarrow> Inr (Some (Position (parseInt (grpStr mt 1))))
         | None \<Rightarrow>
             (let orParts = splitByOperator content '' or '' in
              if length orParts > 1 then
                (case collect (map (parsePredicateContent (stack - 1)) orParts) of
                   Inl e \<Rightarrow> Inl e
                 | Inr rs \<Rightarrow> Inr (combineParts OrP rs))
              else
                (let andParts = splitByOperator content '' and '' in
                 if length andParts > 1 then
                   (case collect (map (parsePredicateContent (stack - 1)) andParts) of
                      Inl e \<Rightarrow> Inl e
                    | Inr rs \<Rightarrow> Inr (combineParts AndP rs))
                 else
                   (case rxMatch notRx content of
                      Some mt \<Rightarrow>
                        (case parsePredicateContent (stack - 1) (grpStr mt 1) of
                           Inl e \<Rightarrow> Inl e
                         | Inr (Some inner) \<Rightarrow> Inr (Some (NotP inner))
                         | Inr None \<Rightarrow> Inr (parsePredicateAtom content))
                    | None \<Rightarrow> Inr (parsePredicateAtom content))))))"
  by pat_completeness auto
termination
proof (relation "measure (\<lambda>(stack, content). length content)", goal_cases)
  case 1
  then show ?case by simp
next
  case (2 stack content0 content orParts p)
  then show ?case
    using splitByOperator_part_shorter[of content "'' or ''" p] length_trim_le[of content0] by simp
next
  case (3 stack content0 content orParts andParts p)
  then show ?case
    using splitByOperator_part_shorter[of content "'' and ''" p] length_trim_le[of content0] by simp
next
  case (4 stack content0 content orParts andParts mt)
  then show ?case
    using notRx_group_shorter[of content mt] length_trim_le[of content0] by simp
qed

declare parsePredicateContent.simps [simp del]

subsection \<open>Predicates and steps\<close>

text \<open>\<open>parseSinglePredicate\<close>: \<open>expr.slice(1, closeIdx)\<close> is the bracket's content and
  \<open>expr.slice(closeIdx + 1)\<close> the rest.\<close>

definition parseSinglePredicate :: "nat \<Rightarrow> string \<Rightarrow> error + (predicate option \<times> string)" where
  "parseSinglePredicate stack expr =
     (if \<not> startsWith expr ''['' then Inr (None, expr)
      else
        (case findMatchingBracket expr of
           None \<Rightarrow> Inr (None, expr)
         | Some closeIdx \<Rightarrow>
             (case parsePredicateContent stack (trim (take (closeIdx - 1) (drop 1 expr))) of
                Inl e \<Rightarrow> Inl e
              | Inr predicate \<Rightarrow> Inr (predicate, drop (closeIdx + 1) expr))))"

definition optList :: "'a option \<Rightarrow> 'a list" where
  "optList x = (case x of Some v \<Rightarrow> [v] | None \<Rightarrow> [])"

lemma drop_neq_shorter: "drop n xs \<noteq> xs \<Longrightarrow> length xs - n < length xs"
  by (cases n; cases xs) auto

lemma parseSinglePredicate_rest:
  "parseSinglePredicate stack expr = Inr (predicate, rest) \<Longrightarrow> rest \<noteq> expr \<Longrightarrow> length rest < length expr"
  by (auto simp: parseSinglePredicate_def drop_neq_shorter split: if_splits option.splits sum.splits)

text \<open>\<open>parsePredicates\<close>: the \<open>while\<close> loop over leading brackets; it stops when a
  bracket cannot be consumed.\<close>

function parsePredicates :: "nat \<Rightarrow> string \<Rightarrow> error + (predicate list \<times> string)" where
  "parsePredicates stack remaining =
     (if startsWith remaining ''['' then
        (case parseSinglePredicate stack remaining of
           Inl e \<Rightarrow> Inl e
         | Inr (predicate, rest) \<Rightarrow>
             if rest = remaining then Inr (optList predicate, remaining)
             else
               (case parsePredicates stack rest of
                  Inl e \<Rightarrow> Inl e
                | Inr (ps, rest') \<Rightarrow> Inr (optList predicate @ ps, rest')))
      else Inr ([], remaining))"
  by pat_completeness auto
termination
proof (relation "measure (\<lambda>(stack, remaining). length remaining)", goal_cases)
  case 1
  then show ?case by simp
next
  case (2 stack remaining b predicate rest)
  then have "parseSinglePredicate stack remaining = Inr (predicate, rest)" by simp
  from parseSinglePredicate_rest[OF this] 2 show ?case by simp
qed

declare parsePredicates.simps [simp del]

definition axisRx :: rx where
  "axisRx =
     seqs [Grp 1 (alts [Lit ''following-sibling'', Lit ''preceding-sibling'', Lit ''following'',
                        Lit ''preceding'', Lit ''ancestor'', Lit ''parent'', Lit ''self'']),
           Lit ''::'']"

definition axisOfString :: "string \<Rightarrow> axis" where
  "axisOfString s =
     (if s = ''following-sibling'' then FollowingSibling
      else if s = ''preceding-sibling'' then PrecedingSibling
      else if s = ''following'' then Following
      else if s = ''preceding'' then Preceding
      else if s = ''ancestor'' then Ancestor
      else if s = ''parent'' then Parent
      else Self)"

definition attrStepRx :: rx where
  "attrStepRx = seqs [Lit ''@'', Grp 1 (Plus CWordDash)]"

definition nameRx :: rx where
  "nameRx = Grp 1 (Plus CWordDash)"

text \<open>The part of \<open>parseStep\<close> after the leading axis marker: an explicit \<open>axis::\<close>,
  then exactly one node test and its predicates.\<close>

definition withPredicates :: "nat \<Rightarrow> axis \<Rightarrow> nodeTest \<Rightarrow> string \<Rightarrow> error + (step option \<times> string)" where
  "withPredicates stack ax test expr =
     (case parsePredicates stack expr of
        Inl e \<Rightarrow> Inl e
      | Inr (ps, rest) \<Rightarrow> Inr (Some \<lparr> axis = ax, nodeTest = test, predicates = ps \<rparr>, rest))"

definition parseNodeTest :: "nat \<Rightarrow> axis \<Rightarrow> string \<Rightarrow> error + (step option \<times> string)" where
  "parseNodeTest stack axis0 remaining0 =
     (let (ax, remaining) =
            (case rxMatch axisRx remaining0 of
               Some mt \<Rightarrow> (axisOfString (grpStr mt 1), drop (fst mt) remaining0)
             | None \<Rightarrow> (axis0, remaining0))
      in
        (case (if startsWith remaining ''@'' then rxMatch attrStepRx remaining else None) of
           Some mt \<Rightarrow>
             Inr (Some \<lparr> axis = Attribute, nodeTest = NameTest (grpStr mt 1), predicates = [] \<rparr>,
                  drop (fst mt) remaining)
         | None \<Rightarrow>
             if startsWith remaining ''text()'' then withPredicates stack ax TextTest (drop 6 remaining)
             else if startsWith remaining ''node()'' then withPredicates stack ax NodeTest (drop 6 remaining)
             else if startsWith remaining ''*'' then withPredicates stack ax AnyTest (drop 1 remaining)
             else
               (case rxMatch nameRx remaining of
                  Some mt \<Rightarrow> withPredicates stack ax (NameTest (grpStr mt 1)) (drop (fst mt) remaining)
                | None \<Rightarrow> Inr (None, remaining))))"

definition parseStep :: "nat \<Rightarrow> string \<Rightarrow> error + (step option \<times> string)" where
  "parseStep stack expr =
     (if startsWith expr ''//'' then parseNodeTest stack Descendant (drop 2 expr)
      else if startsWith expr ''/'' then parseNodeTest stack Child (drop 1 expr)
      else if startsWith expr ''.//'' then parseNodeTest stack Descendant (drop 3 expr)
      else if startsWith expr ''./'' then parseNodeTest stack Child (drop 2 expr)
      else if startsWith expr ''..'' then
        Inr (Some \<lparr> axis = Parent, nodeTest = NodeTest, predicates = [] \<rparr>, drop 2 expr)
      else if startsWith expr ''.'' then
        Inr (Some \<lparr> axis = Self, nodeTest = NodeTest, predicates = [] \<rparr>, drop 1 expr)
      else parseNodeTest stack Child expr)"

lemma parseSinglePredicate_suffix: "parseSinglePredicate stack e = Inr (p, r) \<Longrightarrow> suffix r e"
  by (auto simp: parseSinglePredicate_def suffix_drop split: if_splits option.splits sum.splits)

lemma parsePredicates_suffix: "parsePredicates stack e = Inr (ps, r) \<Longrightarrow> suffix r e"
proof (induction stack e arbitrary: ps r rule: parsePredicates.induct)
  case (1 stack remaining)
  show ?case
  proof (cases "startsWith remaining ''[''")
    case False
    with "1.prems" show ?thesis
      by (subst (asm) parsePredicates.simps) simp
  next
    case sw: True
    with "1.prems" obtain predicate rest where
      sp: "parseSinglePredicate stack remaining = Inr (predicate, rest)"
      by (subst (asm) parsePredicates.simps) (auto split: sum.splits)
    show ?thesis
    proof (cases "rest = remaining")
      case True
      with "1.prems" sw sp show ?thesis
        by (subst (asm) parsePredicates.simps) simp
    next
      case False
      with "1.prems" sw sp obtain ps' where
        rec: "parsePredicates stack rest = Inr (ps', r)"
        by (subst (asm) parsePredicates.simps) (auto split: sum.splits)
      from "1.IH"[OF sw sp refl False rec] have "suffix r rest" .
      moreover have "suffix rest remaining"
        using parseSinglePredicate_suffix[OF sp] .
      ultimately show ?thesis
        using suffix_order.trans by blast
    qed
  qed
qed

lemma withPredicates_suffix:
  "withPredicates stack ax test (drop n e) = Inr (s, r) \<Longrightarrow> suffix r e"
proof -
  assume "withPredicates stack ax test (drop n e) = Inr (s, r)"
  then obtain ps where "parsePredicates stack (drop n e) = Inr (ps, r)"
    by (auto simp: withPredicates_def split: sum.splits)
  then have "suffix r (drop n e)"
    by (rule parsePredicates_suffix)
  then show ?thesis
    using suffix_drop suffix_order.trans by blast
qed

lemma parseNodeTest_suffix:
  assumes "parseNodeTest stack ax e = Inr (s, r)"
  shows "suffix r e"
proof -
  obtain ax' rem where ar: "(case rxMatch axisRx e of
               Some mt \<Rightarrow> (axisOfString (grpStr mt 1), drop (fst mt) e)
             | None \<Rightarrow> (ax, e)) = (ax', rem)"
    by fastforce
  then have sr: "suffix rem e"
    by (auto simp: suffix_drop split: option.splits)
  have wp: "withPredicates stack a t (drop n rem) = Inr (s, r) \<Longrightarrow> suffix r rem" for a t n
    by (rule withPredicates_suffix)
  have "suffix r rem"
    using assms unfolding parseNodeTest_def ar
    by (auto simp: suffix_drop dest: wp split: option.splits if_splits)
  with sr show ?thesis
    using suffix_order.trans by blast
qed

lemma parseStep_suffix:
  assumes "parseStep stack e = Inr (s, r)"
  shows "suffix r e"
proof -
  have "parseNodeTest stack ax (drop n e) = Inr (s, r) \<Longrightarrow> suffix r e" for ax n
    using parseNodeTest_suffix[of stack ax "drop n e" s r] suffix_drop suffix_order.trans by blast
  moreover have "parseNodeTest stack ax e = Inr (s, r) \<Longrightarrow> suffix r e" for ax
    by (rule parseNodeTest_suffix)
  ultimately show ?thesis
    using assms by (auto simp: parseStep_def suffix_drop split: if_splits)
qed

lemma suffix_neq_shorter: "suffix r e \<Longrightarrow> r \<noteq> e \<Longrightarrow> length r < length e"
  by (auto simp: suffix_def)

subsection \<open>Steps of an expression\<close>

text \<open>
  \<open>parseXPath\<close> reports through the logger passed to it; the model returns the log
  entries beside the steps. The loop stops when the input is used up or when
  \<open>parseStep\<close> leaves it unchanged.
\<close>

datatype logEntry = Warn string "(string \<times> string) list"

function parseXPathLoop :: "nat \<Rightarrow> string \<Rightarrow> string \<Rightarrow> error + (step list \<times> logEntry list)" where
  "parseXPathLoop stack expr remaining =
     (if length remaining > 0 then
        (case parseStep stack remaining of
           Inl e \<Rightarrow> Inl e
         | Inr (step, rest) \<Rightarrow>
             if rest = remaining then
               Inr (optList step,
                    [Warn ''unparseable xpath segment''
                       [(''segment'', take 50 remaining), (''expression'', expr)]])
             else
               (case parseXPathLoop stack expr rest of
                  Inl e \<Rightarrow> Inl e
                | Inr (steps, logs) \<Rightarrow> Inr (optList step @ steps, logs)))
      else Inr ([], []))"
  by pat_completeness auto
termination
proof (relation "measure (\<lambda>(stack, expr, remaining). length remaining)", goal_cases)
  case 1
  then show ?case by simp
next
  case (2 stack expr remaining b step rest)
  then have "parseStep stack remaining = Inr (step, rest)" by simp
  from suffix_neq_shorter[OF parseStep_suffix[OF this]] 2 show ?case by simp
qed

declare parseXPathLoop.simps [simp del]

definition parseXPath :: "nat \<Rightarrow> string \<Rightarrow> error + (step list \<times> logEntry list)" where
  "parseXPath stack expr = parseXPathLoop stack expr (trim expr)"
section \<open>The axis and predicate evaluator\<close>

text \<open>\<open>XPathResult = Node | string\<close>.\<close>

datatype xresult = XNode nref | XString string

subsection \<open>Axes\<close>

definition childNodes :: "dnode \<Rightarrow> nref \<Rightarrow> nref list" where
  "childNodes doc r =
     (case r of
        NodeRef p \<Rightarrow>
          (case nodeAt doc p of
             Some n \<Rightarrow> map (\<lambda>i. NodeRef (p @ [i])) [0..<length (childrenOf n)]
           | None \<Rightarrow> [])
      | AttrRef p name \<Rightarrow> [])"

text \<open>\<open>getDescendants\<close>: every node below \<open>r\<close>, each child before its own
  descendants (\<open>descPaths\<close> is that walk on the tree).\<close>

definition getDescendants :: "dnode \<Rightarrow> nref \<Rightarrow> nref list" where
  "getDescendants doc r =
     (case r of
        NodeRef p \<Rightarrow>
          (case nodeAt doc p of
             Some n \<Rightarrow> map (\<lambda>d. NodeRef (p @ d)) (descPaths n)
           | None \<Rightarrow> [])
      | AttrRef p name \<Rightarrow> [])"

definition parentNode :: "dnode \<Rightarrow> nref \<Rightarrow> nref option" where
  "parentNode doc r =
     (case r of
        NodeRef p \<Rightarrow> (if p \<noteq> [] \<and> nodeAt doc p \<noteq> None then Some (NodeRef (butlast p)) else None)
      | AttrRef p name \<Rightarrow> None)"

function ancestorPaths :: "path \<Rightarrow> path list" where
  "ancestorPaths p = (if p = [] then [] else butlast p # ancestorPaths (butlast p))"
  by pat_completeness auto
termination
  by (relation "measure length") auto

declare ancestorPaths.simps [simp del]

definition ancestors :: "dnode \<Rightarrow> nref \<Rightarrow> nref list" where
  "ancestors doc r =
     (case parentNode doc r of
        None \<Rightarrow> []
      | Some q \<Rightarrow> (case r of NodeRef p \<Rightarrow> map NodeRef (ancestorPaths p) | AttrRef p name \<Rightarrow> []))"

text \<open>The number of children of the parent, for the sibling axes.\<close>

definition siblingCount :: "dnode \<Rightarrow> path \<Rightarrow> nat" where
  "siblingCount doc p = (case nodeAt doc (butlast p) of Some n \<Rightarrow> length (childrenOf n) | None \<Rightarrow> 0)"

definition followingSiblings :: "dnode \<Rightarrow> nref \<Rightarrow> nref list" where
  "followingSiblings doc r =
     (case parentNode doc r of
        None \<Rightarrow> []
      | Some q \<Rightarrow>
          (case r of
             NodeRef p \<Rightarrow> map (\<lambda>j. NodeRef (butlast p @ [j])) [Suc (last p)..<siblingCount doc p]
           | AttrRef p name \<Rightarrow> []))"

definition precedingSiblings :: "dnode \<Rightarrow> nref \<Rightarrow> nref list" where
  "precedingSiblings doc r =
     (case parentNode doc r of
        None \<Rightarrow> []
      | Some q \<Rightarrow>
          (case r of
             NodeRef p \<Rightarrow> map (\<lambda>j. NodeRef (butlast p @ [j])) (rev [0..<last p])
           | AttrRef p name \<Rightarrow> []))"

text \<open>\<open>child.contains(context)\<close> where \<open>child\<close> is not \<open>context\<close> itself.\<close>

definition containsNode :: "dnode \<Rightarrow> path \<Rightarrow> nref \<Rightarrow> bool" where
  "containsNode doc child context =
     (case context of
        NodeRef p \<Rightarrow> prefix child p \<and> nodeAt doc p \<noteq> None
      | AttrRef p name \<Rightarrow> False)"

text \<open>
  The two document-order walks. \<open>walkFollowing\<close> threads the flag \<open>foundContext\<close>
  through the children of a node; \<open>walkPreceding\<close> returns \<open>True\<close> as soon as it
  meets the context (its own flag \<open>foundContext\<close> is never set in the source, so
  the test on it always passes).
\<close>

fun walkFollowing :: "dnode \<Rightarrow> nref \<Rightarrow> dnode \<Rightarrow> path \<Rightarrow> bool \<Rightarrow> nref list \<times> bool"
  and walkFollowingKids ::
    "dnode \<Rightarrow> nref \<Rightarrow> dnode list \<Rightarrow> nat \<Rightarrow> path \<Rightarrow> bool \<Rightarrow> nref list \<times> bool" where
  "walkFollowing doc context (Document cs) np found = walkFollowingKids doc context cs 0 np found"
| "walkFollowing doc context (Element t as cs) np found = walkFollowingKids doc context cs 0 np found"
| "walkFollowing doc context (Text d) np found = ([], found)"
| "walkFollowing doc context (Comment d) np found = ([], found)"
| "walkFollowingKids doc context [] i np found = ([], found)"
| "walkFollowingKids doc context (c # cs) i np found =
     (if found then
        (case walkFollowingKids doc context cs (Suc i) np found of
           (rs, f) \<Rightarrow> (NodeRef (np @ [i]) # getDescendants doc (NodeRef (np @ [i])) @ rs, f))
      else if NodeRef (np @ [i]) = context then walkFollowingKids doc context cs (Suc i) np True
      else if containsNode doc (np @ [i]) context then
        (case walkFollowing doc context c (np @ [i]) found of
           (rs1, f1) \<Rightarrow>
             (case walkFollowingKids doc context cs (Suc i) np f1 of
                (rs2, f2) \<Rightarrow> (rs1 @ rs2, f2)))
      else walkFollowingKids doc context cs (Suc i) np found)"

fun walkPreceding :: "dnode \<Rightarrow> nref \<Rightarrow> dnode \<Rightarrow> path \<Rightarrow> nref list \<times> bool"
  and walkPrecedingKids :: "dnode \<Rightarrow> nref \<Rightarrow> dnode list \<Rightarrow> nat \<Rightarrow> path \<Rightarrow> nref list \<times> bool" where
  "walkPreceding doc context (Document cs) np = walkPrecedingKids doc context cs 0 np"
| "walkPreceding doc context (Element t as cs) np = walkPrecedingKids doc context cs 0 np"
| "walkPreceding doc context (Text d) np = ([], False)"
| "walkPreceding doc context (Comment d) np = ([], False)"
| "walkPrecedingKids doc context [] i np = ([], False)"
| "walkPrecedingKids doc context (c # cs) i np =
     (if NodeRef (np @ [i]) = context then ([], True)
      else if containsNode doc (np @ [i]) context then
        (case walkPreceding doc context c (np @ [i]) of
           (rs1, f1) \<Rightarrow>
             if f1 then (rs1, True)
             else (case walkPrecedingKids doc context cs (Suc i) np of (rs2, f2) \<Rightarrow> (rs1 @ rs2, f2)))
      else
        (case walkPrecedingKids doc context cs (Suc i) np of
           (rs, f) \<Rightarrow> (NodeRef (np @ [i]) # getDescendants doc (NodeRef (np @ [i])) @ rs, f)))"

text \<open>\<open>getCandidates\<close>; the root of the walks is \<open>context.ownerDocument || context\<close>,
  the document at the empty path.\<close>

fun getCandidates :: "dnode \<Rightarrow> axis \<Rightarrow> nref \<Rightarrow> nref list" where
  "getCandidates doc Child context = childNodes doc context"
| "getCandidates doc Descendant context =
     (if nodeType doc context = 9 then
        concat (map (\<lambda>child. child # getDescendants doc child) (childNodes doc context))
      else getDescendants doc context)"
| "getCandidates doc Self context = [context]"
| "getCandidates doc Parent context =
     (case parentNode doc context of Some q \<Rightarrow> [q] | None \<Rightarrow> [])"
| "getCandidates doc Attribute context = (if nodeType doc context = 1 then [context] else [])"
| "getCandidates doc Ancestor context = ancestors doc context"
| "getCandidates doc FollowingSibling context = followingSiblings doc context"
| "getCandidates doc PrecedingSibling context = precedingSiblings doc context"
| "getCandidates doc Following context = fst (walkFollowing doc context doc [] False)"
| "getCandidates doc Preceding context = fst (walkPreceding doc context doc [])"

subsection \<open>Node tests\<close>

definition tagNameOf :: "dnode \<Rightarrow> nref \<Rightarrow> string" where
  "tagNameOf doc r =
     (case r of
        NodeRef p \<Rightarrow> (case nodeAt doc p of Some n \<Rightarrow> tagName n | None \<Rightarrow> [])
      | AttrRef p name \<Rightarrow> [])"

fun filterByNodeTest :: "dnode \<Rightarrow> nref list \<Rightarrow> nodeTest \<Rightarrow> nref list" where
  "filterByNodeTest doc nodes AnyTest = filter (\<lambda>n. nodeType doc n = 1) nodes"
| "filterByNodeTest doc nodes (NameTest name) =
     filter (\<lambda>n. nodeType doc n = 1 \<and> toLowerCase (tagNameOf doc n) = toLowerCase name) nodes"
| "filterByNodeTest doc nodes TextTest = filter (\<lambda>n. nodeType doc n = 3) nodes"
| "filterByNodeTest doc nodes NodeTest = nodes"

subsection \<open>Predicates\<close>

text \<open>\<open>Array.prototype.indexOf\<close>: the first index of the element, or \<open>-1\<close>.\<close>

fun indexOf :: "'a list \<Rightarrow> 'a \<Rightarrow> int" where
  "indexOf [] x = -1"
| "indexOf (y # ys) x = (if y = x then 0 else (let r = indexOf ys x in if r < 0 then -1 else r + 1))"

fun compareNumbers :: "int \<Rightarrow> cmpOp \<Rightarrow> int \<Rightarrow> bool" where
  "compareNumbers left Lt right = (left < right)"
| "compareNumbers left Gt right = (left > right)"
| "compareNumbers left Le right = (left \<le> right)"
| "compareNumbers left Ge right = (left \<ge> right)"
| "compareNumbers left EqOp right = (left = right)"

definition getNodeText :: "dnode \<Rightarrow> nref \<Rightarrow> string" where
  "getNodeText doc node = (case textContent doc node of Some t \<Rightarrow> trim t | None \<Rightarrow> [])"

text \<open>\<open>normalizeSpace\<close>: every run of white space becomes one space, then \<open>trim\<close>.\<close>

function collapseSpaces :: "string \<Rightarrow> string" where
  "collapseSpaces [] = []"
| "collapseSpaces (c # cs) =
     (if isSpace c then CHR '' '' # collapseSpaces (dropWhile isSpace cs) else c # collapseSpaces cs)"
  by pat_completeness auto
termination
  by (relation "measure length") (auto simp: length_dropWhile_le less_Suc_eq_le)

definition normalizeSpace :: "string \<Rightarrow> string" where
  "normalizeSpace t = trim (collapseSpaces t)"

text \<open>The loop of \<open>translate\<close>: \<open>result.split(from[i]).join(replacement)\<close> for each
  index \<open>i\<close> of \<open>from\<close> in turn.\<close>

definition translateOne :: "string \<Rightarrow> string \<Rightarrow> string \<Rightarrow> nat \<Rightarrow> string" where
  "translateOne from to result i =
     concat (map (\<lambda>c. if c = from ! i then (if i < length to then [to ! i] else []) else [c]) result)"

definition translate :: "string \<Rightarrow> string \<Rightarrow> string \<Rightarrow> string" where
  "translate t from to = foldl (translateOne from to) t [0..<length from]"

text \<open>The native matcher called on an element; \<open>None\<close> when it throws.\<close>

definition querySelectorAllOn :: "provider \<Rightarrow> dnode \<Rightarrow> nref \<Rightarrow> string \<Rightarrow> nref list option" where
  "querySelectorAllOn P doc r q =
     (case r of
        NodeRef p \<Rightarrow> map_option (map NodeRef) (querySelectorAll P doc p q)
      | AttrRef p name \<Rightarrow> Some [])"

text \<open>
  \<open>evaluatePredicate\<close>. The result is \<open>None\<close> when the native matcher throws inside
  \<open>has-child\<close> or \<open>count(...)\<close>; \<open>&&\<close> and \<open>||\<close> evaluate their right operand only when
  needed.
\<close>

fun evaluatePredicate :: "provider \<Rightarrow> dnode \<Rightarrow> nref \<Rightarrow> predicate \<Rightarrow> nref list \<Rightarrow> bool option" where
  "evaluatePredicate P doc node (Position index) allNodes =
     Some (indexOf allNodes node = int index - 1)"
| "evaluatePredicate P doc node (AttrExists name) allNodes =
     Some (nodeType doc node = 1 \<and> hasAttribute doc node name)"
| "evaluatePredicate P doc node (AttrEquals name v) allNodes =
     Some (nodeType doc node = 1 \<and> getAttribute doc node name = Some v)"
| "evaluatePredicate P doc node (TextEquals v) allNodes = Some (getNodeText doc node = v)"
| "evaluatePredicate P doc node (TextContains v) allNodes = Some (strIncludes (getNodeText doc node) v)"
| "evaluatePredicate P doc node (AttrContains name v) allNodes =
     Some (nodeType doc node = 1 \<and>
           strIncludes (case getAttribute doc node name of Some a \<Rightarrow> a | None \<Rightarrow> []) v)"
| "evaluatePredicate P doc node (AttrStartsWith name v) allNodes =
     Some (nodeType doc node = 1 \<and>
           startsWith (case getAttribute doc node name of Some a \<Rightarrow> a | None \<Rightarrow> []) v)"
| "evaluatePredicate P doc node (AttrEndsWith name v) allNodes =
     Some (nodeType doc node = 1 \<and>
           endsWith (case getAttribute doc node name of Some a \<Rightarrow> a | None \<Rightarrow> []) v)"
| "evaluatePredicate P doc node (TextStartsWith v) allNodes = Some (startsWith (getNodeText doc node) v)"
| "evaluatePredicate P doc node (TextEndsWith v) allNodes = Some (endsWith (getNodeText doc node) v)"
| "evaluatePredicate P doc node (HasChild tag) allNodes =
     (if nodeType doc node \<noteq> 1 then Some False
      else map_option (\<lambda>ms. ms \<noteq> []) (querySelectorAllOn P doc node tag))"
| "evaluatePredicate P doc node (NotP inner) allNodes =
     map_option Not (evaluatePredicate P doc node inner allNodes)"
| "evaluatePredicate P doc node (AndP l r) allNodes =
     (case evaluatePredicate P doc node l allNodes of
        None \<Rightarrow> None
      | Some b \<Rightarrow> if b then evaluatePredicate P doc node r allNodes else Some False)"
| "evaluatePredicate P doc node (OrP l r) allNodes =
     (case evaluatePredicate P doc node l allNodes of
        None \<Rightarrow> None
      | Some b \<Rightarrow> if b then Some True else evaluatePredicate P doc node r allNodes)"
| "evaluatePredicate P doc node (AttrNotEquals name v) allNodes =
     Some (nodeType doc node = 1 \<and> getAttribute doc node name \<noteq> Some v)"
| "evaluatePredicate P doc node (TextNotEquals v) allNodes = Some (getNodeText doc node \<noteq> v)"
| "evaluatePredicate P doc node (NormalizeSpaceEquals v) allNodes =
     Some (normalizeSpace (getNodeText doc node) = v)"
| "evaluatePredicate P doc node Last allNodes =
     Some (indexOf allNodes node = int (length allNodes) - 1)"
| "evaluatePredicate P doc node (PositionCompare operator v) allNodes =
     Some (compareNumbers (indexOf allNodes node + 1) operator (int v))"
| "evaluatePredicate P doc node (CountCompare tag operator v) allNodes =
     (if nodeType doc node \<noteq> 1 then Some False
      else map_option (\<lambda>ms. compareNumbers (int (length ms)) operator (int v))
             (querySelectorAllOn P doc node tag))"
| "evaluatePredicate P doc node (StringLengthCompare operator v) allNodes =
     Some (compareNumbers (int (length (getNodeText doc node))) operator (int v))"
| "evaluatePredicate P doc node (SubstringEquals start len v) allNodes =
     Some ((case len of
              Some l \<Rightarrow> slice (getNodeText doc node) (int start - 1) (Some (int start - 1 + int l))
            | None \<Rightarrow> slice (getNodeText doc node) (int start - 1) None) = v)"
| "evaluatePredicate P doc node (SubstringBeforeEquals delimiter v) allNodes =
     Some ((let t = getNodeText doc node; idx = strIndexOf t delimiter
            in if idx = -1 then [] else slice t 0 (Some idx)) = v)"
| "evaluatePredicate P doc node (SubstringAfterEquals delimiter v) allNodes =
     Some ((let t = getNodeText doc node; idx = strIndexOf t delimiter
            in if idx = -1 then [] else slice t (idx + int (length delimiter)) None) = v)"
| "evaluatePredicate P doc node (TranslateEquals from to v) allNodes =
     Some (translate (getNodeText doc node) from to = v)"

text \<open>\<open>Array.prototype.filter\<close> with a callback that may throw.\<close>

fun filterThrowing :: "('a \<Rightarrow> bool option) \<Rightarrow> 'a list \<Rightarrow> 'a list option" where
  "filterThrowing f [] = Some []"
| "filterThrowing f (x # xs) =
     (case f x of
        None \<Rightarrow> None
      | Some b \<Rightarrow> map_option (\<lambda>ys. if b then x # ys else ys) (filterThrowing f xs))"

text \<open>\<open>applyPredicates\<close>: each predicate filters the current \<open>result\<close> and is given
  that same \<open>result\<close> as \<open>allNodes\<close>.\<close>

fun applyPredicates :: "provider \<Rightarrow> dnode \<Rightarrow> nref list \<Rightarrow> predicate list \<Rightarrow> nref list option" where
  "applyPredicates P doc result [] = Some result"
| "applyPredicates P doc result (pred # preds) =
     (case filterThrowing (\<lambda>node. evaluatePredicate P doc node pred result) result of
        None \<Rightarrow> None
      | Some result' \<Rightarrow> applyPredicates P doc result' preds)"

subsection \<open>Steps and expressions\<close>

text \<open>What one context contributes to \<open>evaluateStep\<close>; a string context is skipped.\<close>

definition evaluateStepOn :: "provider \<Rightarrow> dnode \<Rightarrow> step \<Rightarrow> xresult \<Rightarrow> xresult list option" where
  "evaluateStepOn P doc st context =
     (case context of
        XString s \<Rightarrow> Some []
      | XNode c \<Rightarrow>
          (case (axis st, nodeTest st) of
             (Attribute, NameTest name) \<Rightarrow>
               (if nodeType doc c = 1 then
                  (case getAttribute doc c name of Some a \<Rightarrow> Some [XString a] | None \<Rightarrow> Some [])
                else Some [])
           | other \<Rightarrow>
               map_option (map XNode)
                 (applyPredicates P doc
                    (filterByNodeTest doc (getCandidates doc (axis st) c) (nodeTest st))
                    (predicates st))))"

fun evaluateStep :: "provider \<Rightarrow> dnode \<Rightarrow> step \<Rightarrow> xresult list \<Rightarrow> xresult list option" where
  "evaluateStep P doc st [] = Some []"
| "evaluateStep P doc st (context # contexts) =
     (case evaluateStepOn P doc st context of
        None \<Rightarrow> None
      | Some rs \<Rightarrow> map_option ((@) rs) (evaluateStep P doc st contexts))"

fun evaluateSteps :: "provider \<Rightarrow> dnode \<Rightarrow> step list \<Rightarrow> xresult list \<Rightarrow> xresult list option" where
  "evaluateSteps P doc [] results = Some results"
| "evaluateSteps P doc (st # sts) results =
     (case evaluateStep P doc st results of
        None \<Rightarrow> None
      | Some results' \<Rightarrow> evaluateSteps P doc sts results')"

text \<open>\<open>evaluateSingleXPath\<close> parses with the call stack of the environment and runs the
  steps; \<open>None\<close> is an exception, of the parser or of a step.\<close>

definition evaluateSingleXPath :: "provider \<Rightarrow> dnode \<Rightarrow> string \<Rightarrow> nref list \<Rightarrow> xresult list option" where
  "evaluateSingleXPath P doc expr contexts =
     (case parseXPath (callStack P) expr of
        Inl e \<Rightarrow> None
      | Inr (steps, logs) \<Rightarrow> evaluateSteps P doc steps (map XNode contexts))"

text \<open>
  The union loop of \<open>evaluateXPath\<close>: strings are always appended, a node only
  when it is not in \<open>seen\<close>. The state is \<open>(allResults, seen)\<close>.
\<close>

definition unionAdd :: "xresult list \<times> nref list \<Rightarrow> xresult \<Rightarrow> xresult list \<times> nref list" where
  "unionAdd st r =
     (case st of (allResults, seen) \<Rightarrow>
        (case r of
           XString s \<Rightarrow> (allResults @ [XString s], seen)
         | XNode n \<Rightarrow> if n \<in> set seen then (allResults, seen) else (allResults @ [XNode n], seen @ [n])))"

fun unionLoop ::
  "provider \<Rightarrow> dnode \<Rightarrow> nref list \<Rightarrow> string list \<Rightarrow> xresult list \<times> nref list \<Rightarrow> xresult list option" where
  "unionLoop P doc contexts [] st = Some (fst st)"
| "unionLoop P doc contexts (part # parts) st =
     (case evaluateSingleXPath P doc (trim part) contexts of
        None \<Rightarrow> None
      | Some partResults \<Rightarrow> unionLoop P doc contexts parts (foldl unionAdd st partResults))"

definition evaluateXPath :: "provider \<Rightarrow> dnode \<Rightarrow> string \<Rightarrow> nref list \<Rightarrow> xresult list option" where
  "evaluateXPath P doc expr contexts =
     (if expr = [] \<or> trim expr = [] then Some []
      else if length (splitUnion expr) > 1 then unionLoop P doc contexts (splitUnion expr) ([], [])
      else evaluateSingleXPath P doc expr contexts)"

section \<open>The pseudo-element translator\<close>

datatype extractMode = ExNode | ExText | ExAttr

record parsedSelector =
  query :: string
  extractMode :: extractMode
  attrName :: "string option"

text \<open>\<open>/^(.+?)::text$/\<close> and \<open>/^(.+?)::attr\(([^)]+)\)$/\<close>\<close>

definition textPseudoRx :: rx where
  "textPseudoRx = seqs [Grp 1 (LazyPlus CDot), Lit ''::text'', Eos]"

definition attrPseudoRx :: rx where
  "attrPseudoRx = seqs [Grp 1 (LazyPlus CDot), Lit ''::attr('', Grp 2 (Plus CNotRParen), Lit '')'', Eos]"

definition parseXPathPseudo :: "string \<Rightarrow> parsedSelector" where
  "parseXPathPseudo q =
     (case rxMatch textPseudoRx q of
        Some mt \<Rightarrow> \<lparr> query = grpStr mt 1, extractMode = ExText, attrName = None \<rparr>
      | None \<Rightarrow>
          (case rxMatch attrPseudoRx q of
             Some mt \<Rightarrow> \<lparr> query = grpStr mt 1, extractMode = ExAttr, attrName = Some (grpStr mt 2) \<rparr>
           | None \<Rightarrow> \<lparr> query = q, extractMode = ExNode, attrName = None \<rparr>))"

definition parseCSSPseudo :: "string \<Rightarrow> parsedSelector" where
  "parseCSSPseudo q =
     (case rxMatch textPseudoRx q of
        Some mt \<Rightarrow> \<lparr> query = grpStr mt 1, extractMode = ExText, attrName = None \<rparr>
      | None \<Rightarrow>
          (case rxMatch attrPseudoRx q of
             Some mt \<Rightarrow> \<lparr> query = grpStr mt 1, extractMode = ExAttr, attrName = Some (grpStr mt 2) \<rparr>
           | None \<Rightarrow> \<lparr> query = q, extractMode = ExNode, attrName = None \<rparr>))"

text \<open>\<open>extractValue\<close>; an absent or empty \<open>attrName\<close> is falsy and falls through to
  the node rule.\<close>

definition extractValue :: "provider \<Rightarrow> dnode \<Rightarrow> nref \<Rightarrow> extractMode \<Rightarrow> string option \<Rightarrow> string option" where
  "extractValue P doc node ex name =
     (if ex = ExText then
        (case textContent doc node of
           None \<Rightarrow> None
         | Some t \<Rightarrow> if trim t = [] then None else Some (trim t))
      else if ex = ExAttr \<and> name \<noteq> None \<and> name \<noteq> Some [] then
        (if nodeType doc node = 1 then getAttribute doc node (the name) else None)
      else if nodeType doc node = 1 then
        (case node of
           NodeRef p \<Rightarrow> map_option (outerHTML P) (nodeAt doc p)
         | AttrRef p a \<Rightarrow> None)
      else if nodeType doc node = 2 then
        (case node of AttrRef p a \<Rightarrow> Some (attrValue doc p a) | NodeRef p \<Rightarrow> None)
      else map_option trim (textContent doc node))"

section \<open>Queries on a Selector\<close>

text \<open>
  Modelled from the spec: \<open>splitXPathUnion\<close> is imported by the Selector from the
  XPath module but is not among the sources. The spec has the union operator
  split the whole expression at \<open>|\<close> at bracket and quote depth 0, which is what
  the module's own \<open>splitUnion\<close> does.
\<close>

definition splitXPathUnion :: "string \<Rightarrow> string list" where
  "splitXPathUnion q = splitUnion q"

text \<open>The result of the private method \<open>#evaluateSingleXPath\<close>; \<open>None\<close> is \<open>null\<close>, returned
  when the evaluation threw.\<close>

datatype partResult = Strings "string list" | Nodes "nref list"

fun stringsOf :: "xresult list \<Rightarrow> string list" where
  "stringsOf [] = []"
| "stringsOf (XString s # rs) = s # stringsOf rs"
| "stringsOf (XNode n # rs) = stringsOf rs"

fun nodesOfResults :: "xresult list \<Rightarrow> nref list" where
  "nodesOfResults [] = []"
| "nodesOfResults (XString s # rs) = nodesOfResults rs"
| "nodesOfResults (XNode n # rs) = n # nodesOfResults rs"

text \<open>\<open>xs.map(f).filter(v => v !== null)\<close>\<close>

definition mapNonNull :: "('a \<Rightarrow> 'b option) \<Rightarrow> 'a list \<Rightarrow> 'b list" where
  "mapNonNull f xs = concat (map (\<lambda>x. case f x of Some v \<Rightarrow> [v] | None \<Rightarrow> []) xs)"

definition selectorEvaluateSingleXPath ::
  "provider \<Rightarrow> dnode \<Rightarrow> nref list \<Rightarrow> string \<Rightarrow> partResult option" where
  "selectorEvaluateSingleXPath P doc nodes q =
     (let parsed = parseXPathPseudo q in
        (case evaluateXPath P doc (query parsed) nodes of
           None \<Rightarrow> None
         | Some xpathResults \<Rightarrow>
             if length (stringsOf xpathResults) > 0 then Some (Strings (stringsOf xpathResults))
             else if extractMode parsed = ExText \<or> extractMode parsed = ExAttr then
               Some (Strings (mapNonNull (\<lambda>n. extractValue P doc n (extractMode parsed) (attrName parsed))
                                (nodesOfResults xpathResults)))
             else Some (Nodes (nodesOfResults xpathResults))))"

text \<open>
  The union loop of \<open>Selector.xpath\<close>, with the state \<open>(allStrings, allNodes)\<close>; the
  set \<open>seenNodes\<close> always holds the elements of \<open>allNodes\<close>. \<open>None\<close> is the early
  return of an empty Selector when a part could not be evaluated.
\<close>

definition addUnseen :: "nref list \<Rightarrow> nref \<Rightarrow> nref list" where
  "addUnseen allNodes node = (if node \<in> set allNodes then allNodes else allNodes @ [node])"

fun xpathUnionLoop ::
  "provider \<Rightarrow> dnode \<Rightarrow> nref list \<Rightarrow> string list \<Rightarrow> string list \<times> nref list
     \<Rightarrow> (string list \<times> nref list) option" where
  "xpathUnionLoop P doc nodes [] st = Some st"
| "xpathUnionLoop P doc nodes (part # parts) st =
     (case selectorEvaluateSingleXPath P doc nodes (trim part) of
        None \<Rightarrow> None
      | Some (Strings vs) \<Rightarrow> xpathUnionLoop P doc nodes parts (fst st @ vs, snd st)
      | Some (Nodes ns) \<Rightarrow> xpathUnionLoop P doc nodes parts (fst st, foldl addUnseen (snd st) ns))"

definition xpath :: "provider \<Rightarrow> dnode \<Rightarrow> selector \<Rightarrow> string \<Rightarrow> selector" where
  "xpath P doc this q =
     (if length (splitXPathUnion q) > 1 then
        (case xpathUnionLoop P doc (nodesOf this) (splitXPathUnion q) ([], []) of
           None \<Rightarrow> Selector [] q
         | Some (allStrings, allNodes) \<Rightarrow>
             if length allStrings > 0 then TextSelector allStrings q else Selector allNodes q)
      else
        (case selectorEvaluateSingleXPath P doc (nodesOf this) q of
           None \<Rightarrow> Selector [] q
         | Some (Strings vs) \<Rightarrow> TextSelector vs q
         | Some (Nodes ns) \<Rightarrow> Selector ns q))"

text \<open>\<open>Selector.css\<close>: the native matcher runs on every element or document node of
  the Selector; a rejected selector is logged and contributes nothing.\<close>

definition css :: "provider \<Rightarrow> dnode \<Rightarrow> selector \<Rightarrow> string \<Rightarrow> selector" where
  "css P doc this q =
     (let parsed = parseCSSPseudo q;
          results =
            concat (map (\<lambda>node.
                      if nodeType doc node = 1 \<or> nodeType doc node = 9 then
                        (case querySelectorAllOn P doc node (query parsed) of
                           Some ms \<Rightarrow> ms | None \<Rightarrow> [])
                      else [])
                    (nodesOf this))
      in if extractMode parsed = ExText \<or> extractMode parsed = ExAttr then
           TextSelector
             (mapNonNull (\<lambda>n. extractValue P doc n (extractMode parsed) (attrName parsed)) results) q
         else Selector results q)"

section \<open>Regular-expression projection\<close>

text \<open>
  The regular-expression engine is an external collaborator. A pattern is a
  string or a \<open>RegExp\<close> object, given by its source text and its flags (a fresh
  object, with \<open>lastIndex\<close> 0; a string that \<open>new RegExp\<close> rejects is outside the
  model). The engine is a parameter: \<open>E source flags text i\<close> is the leftmost match
  of the expression in \<open>text\<close> that starts at index \<open>i\<close> or later, as the pair of
  its start index and the array \<open>[match[0], match[1], ...]\<close> in which an unmatched
  group is \<open>None\<close>.
\<close>

type_synonym jsmatch = "nat \<times> string option list"

type_synonym engine = "string \<Rightarrow> string \<Rightarrow> string \<Rightarrow> nat \<Rightarrow> jsmatch option"

datatype pattern = PString string | PRegExp string string

text \<open>\<open>match[0]\<close> and the end index of a match.\<close>

definition matchedText :: "jsmatch \<Rightarrow> string" where
  "matchedText mt = (case snd mt of Some s # gs \<Rightarrow> s | other \<Rightarrow> [])"

definition matchEnd :: "jsmatch \<Rightarrow> nat" where
  "matchEnd mt = fst mt + length (matchedText mt)"

text \<open>
  The loop \<open>while ((match = globalRegex.exec(text)) !== null)\<close>: \<open>exec\<close> searches from
  \<open>lastIndex\<close> and moves \<open>lastIndex\<close> to the end of the match; the loop pushes every
  defined group of the match. It need not return: the result is \<open>None\<close> when it runs
  forever.
\<close>

partial_function (option) execLoop ::
  "(nat \<Rightarrow> jsmatch option) \<Rightarrow> nat \<Rightarrow> nat \<Rightarrow> string list \<Rightarrow> string list option" where
  "execLoop exec n lastIndex results =
     (if lastIndex > n then Some results
      else
        (case exec lastIndex of
           None \<Rightarrow> Some results
         | Some mt \<Rightarrow> execLoop exec n (matchEnd mt) (results @ mapNonNull id (tl (snd mt)))))"

text \<open>\<open>text.match(globalRegex)\<close> for a global expression: every \<open>match[0]\<close>, stepping
  one index further after an empty match.\<close>

partial_function (option) matchAllLoop ::
  "(nat \<Rightarrow> jsmatch option) \<Rightarrow> nat \<Rightarrow> nat \<Rightarrow> string list \<Rightarrow> string list option" where
  "matchAllLoop exec n lastIndex results =
     (if lastIndex > n then Some results
      else
        (case exec lastIndex of
           None \<Rightarrow> Some results
         | Some mt \<Rightarrow>
             matchAllLoop exec n (if matchedText mt = [] then matchEnd mt + 1 else matchEnd mt)
               (results @ [matchedText mt])))"

declare execLoop.simps [code] matchAllLoop.simps [code]

text \<open>\<open>regex.source.includes("(") && !regex.source.match(/^\(\?:/)\<close>\<close>

definition hasGroups :: "string \<Rightarrow> bool" where
  "hasGroups source \<longleftrightarrow> strIncludes source ''('' \<and> \<not> startsWith source ''(?:''"

definition extractRegex :: "engine \<Rightarrow> pattern \<Rightarrow> string \<Rightarrow> string list option" where
  "extractRegex E pat t =
     (let (source, flags) = (case pat of PString s \<Rightarrow> (s, ''g'') | PRegExp s f \<Rightarrow> (s, f));
          isGlobal = strIncludes flags ''g'';
          globalFlags = (if isGlobal then flags else flags @ ''g'')
      in if hasGroups source then execLoop (E source globalFlags t) (length t) 0 []
         else matchAllLoop (E source globalFlags t) (length t) 0 [])"

text \<open>\<open>MappedSelectorImpl\<close>: the values and the \<open>ok\<close> flag given to its constructor.\<close>

record 'a mappedSelector =
  mappedValues :: "'a list"
  mappedOk :: bool

text \<open>\<open>values.flatMap((v) => extractRegex(pattern, v))\<close>; \<open>None\<close> when a call does not
  return.\<close>

fun flatMapOption :: "('a \<Rightarrow> 'b list option) \<Rightarrow> 'a list \<Rightarrow> 'b list option" where
  "flatMapOption f [] = Some []"
| "flatMapOption f (x # xs) =
     (case f x of None \<Rightarrow> None | Some ys \<Rightarrow> map_option ((@) ys) (flatMapOption f xs))"

definition re :: "engine \<Rightarrow> provider \<Rightarrow> dnode \<Rightarrow> selector \<Rightarrow> pattern \<Rightarrow> string mappedSelector option" where
  "re E P doc this pat =
     map_option (\<lambda>results. \<lparr> mappedValues = results, mappedOk = length results > 0 \<rparr>)
       (flatMapOption (extractRegex E pat) (getall P doc this))"

section \<open>Reference behaviour and example documents\<close>


text \<open>The nodes a walk collects below the path \<open>np\<close>: a reference \<open>np @ j # q\<close> with
  \<open>j\<close> at least the index the walk has reached.\<close>

definition below :: "path \<Rightarrow> nat \<Rightarrow> nref \<Rightarrow> bool" where
  "below np i r \<longleftrightarrow> (\<exists>j q. r = NodeRef (np @ j # q) \<and> i \<le> j)"

text \<open>What one branch of a union contributes: its strings, its nodes (nothing when
  the branch could not be evaluated).\<close>

definition partStrings :: "partResult option \<Rightarrow> string list" where
  "partStrings r = (case r of Some (Strings vs) \<Rightarrow> vs | other \<Rightarrow> [])"

definition partNodes :: "partResult option \<Rightarrow> nref list" where
  "partNodes r = (case r of Some (Nodes ns) \<Rightarrow> ns | other \<Rightarrow> [])"

definition resultsOf :: "xresult list option \<Rightarrow> xresult list" where
  "resultsOf r = (case r of Some rs \<Rightarrow> rs | None \<Rightarrow> [])"

text \<open>\<open><ul><li>A</li><li>B</li><li>C</li><li>D</li></ul>\<close> and the whole-document
  Selector the entry point returns.\<close>

definition listDoc :: dnode where
  "listDoc =
     Document [Element ''UL'' []
       [Element ''LI'' [] [Text ''A''], Element ''LI'' [] [Text ''B''],
        Element ''LI'' [] [Text ''C''], Element ''LI'' [] [Text ''D'']]]"

definition rootSelector :: selector where
  "rootSelector = Selector [NodeRef []] []"

text \<open>\<open><article><h1>Title</h1><h1>Again</h1><a href="/x">t</a></article>\<close>\<close>

definition articleDoc :: dnode where
  "articleDoc =
     Document [Element ''ARTICLE'' []
       [Element ''H1'' [] [Text ''Title''], Element ''H1'' [] [Text ''Again''],
        Element ''A'' [(''href'', ''/x'')] [Text ''t'']]]"

text \<open>
  A regular-expression engine for two expressions, as JavaScript runs them:
  \<open>/\(a\)/\<close> matches the text \<open>(a)\<close> and has no capturing group; \<open>/(?:a)(b)/\<close> matches
  the text \<open>ab\<close> and captures \<open>b\<close>.
\<close>

definition literalSearch :: "string \<Rightarrow> string option list \<Rightarrow> string \<Rightarrow> nat \<Rightarrow> jsmatch option" where
  "literalSearch lit groups t i =
     (let k = strIndexOf (drop i t) lit in if k < 0 then None else Some (i + nat k, Some lit # groups))"

definition escapedParenSource :: string where
  "escapedParenSource = [CHR 0x5C, CHR ''('', CHR ''a'', CHR 0x5C, CHR '')'']"

definition exampleEngine :: engine where
  "exampleEngine source flags t i =
     (if source = escapedParenSource then literalSearch ''(a)'' [] t i
      else if source = ''(?:a)(b)'' then literalSearch ''ab'' [Some ''b''] t i
      else None)"






text \<open>The fragment \<open><p>First</p><div>Second</div><p>Third</p>\<close> and the full document
  \<open><html><body><p>First</p><div>Second</div></body></html>\<close> of the repository's tests
  of \<open>html()\<close>.\<close>

definition fragmentDoc :: dnode where
  "fragmentDoc =
     Document [Element ''P'' [] [Text ''First''], Element ''DIV'' [] [Text ''Second''],
               Element ''P'' [] [Text ''Third'']]"

definition fullDoc :: dnode where
  "fullDoc =
     Document [Element ''HTML'' []
       [Element ''BODY'' [] [Element ''P'' [] [Text ''First''], Element ''DIV'' [] [Text ''Second'']]]]"

text \<open>\<open><div><a title="x|y">t</a><h1>T</h1></div>\<close>\<close>

definition barDoc :: dnode where
  "barDoc =
     Document [Element ''DIV'' []
       [Element ''A'' [(''title'', ''x|y'')] [Text ''t''], Element ''H1'' [] [Text ''T'']]]"
section \<open>Properties of the Selector\<close>

text \<open>
  C1. For every Selector (node-valued or string-valued), whatever operation
  produced it, \<open>ok\<close> is true exactly when \<open>count\<close> is positive.
\<close>

theorem ok_iff_count_positive: "ok s \<longleftrightarrow> count s > 0"
  by (cases s) simp_all

text \<open>
  C7. \<open>get(d)\<close> returns \<open>d\<close> whenever \<open>ok\<close> is false, and \<open>get()\<close> without a default
  returns the first extracted value when there is one and \<open>null\<close> otherwise. The
  model of \<open>get\<close> has no failing branch: it always returns.
\<close>

theorem get_default_contract:
  "(\<not> ok s \<longrightarrow> get P doc s (Some d) = Some d) \<and>
   get P doc s None = (case getall P doc s of [] \<Rightarrow> None | v # vs \<Rightarrow> Some v)"
  by (cases s) (simp_all split: list.splits)

theorem get_default_contract_witness:
  "\<not> ok (TextSelector [] ''//h9::text'') \<and>
   get basicProvider (Document []) (TextSelector [] ''//h9::text'') (Some ''none'') = Some ''none'' \<and>
   get basicProvider (Document []) (TextSelector [] ''//h9::text'') None = None"
  using get_default_contract [of "TextSelector [] ''//h9::text''" basicProvider "Document []" "''none''"]
  by simp

text \<open>
  C10. On a node-valued Selector \<open>getall\<close> keeps exactly the non-empty node values,
  in order. A Selector holding one text node of blanks therefore has \<open>ok\<close> true and
  \<open>count\<close> 1 while \<open>getall\<close> is empty and \<open>get(d)\<close> returns \<open>d\<close>.
\<close>

theorem getall_drops_empty_values:
  "getall P doc (Selector ns q) = filter (\<lambda>v. v \<noteq> []) (map (nodeValue P doc) ns) \<and>
   [] \<notin> set (getall P doc (Selector ns q)) \<and>
   ok (Selector [NodeRef [0]] ''//text()'') \<and>
   count (Selector [NodeRef [0]] ''//text()'') > 0 \<and>
   getall P (Document [Text ''  '']) (Selector [NodeRef [0]] ''//text()'') = [] \<and>
   get P (Document [Text ''  '']) (Selector [NodeRef [0]] ''//text()'') (Some d) = Some d"
  by (simp add: nodeValue_def trimmedText_def trim_def isSpace_def)

text \<open>
  C8. On a whole-document Selector \<open>html()\<close> and \<open>outerHtml()\<close> take the same
  branch: both return the outer markup of the document element, which is the
  first element child of the document, or \<open>null\<close> when there is none. So on the
  fragment \<open><p>First</p><div>Second</div><p>Third</p>\<close> both return \<open><p>First</p>\<close>,
  not the markup of the three siblings, and on
  \<open><html><body><p>First</p><div>Second</div></body></html>\<close> \<open>html()\<close> returns the whole
  \<open>html\<close> element, neither the inner markup of the document element nor that of
  \<open>body\<close>. The repository's tests of \<open>html()\<close> on fragments expect the siblings'
  markup and the inner markup of \<open>body\<close>.
\<close>

theorem html_document_divergence:
  "html P (Document ds) (Selector (NodeRef [] # rs) q) = map_option (outerHTML P) (find isElement ds) \<and>
   outerHtml P (Document ds) (Selector (NodeRef [] # rs) q) = map_option (outerHTML P) (find isElement ds) \<and>
   html basicProvider fragmentDoc rootSelector = Some ''<p>First</p>'' \<and>
   outerHtml basicProvider fragmentDoc rootSelector = Some ''<p>First</p>'' \<and>
   concat (map (outerHTML basicProvider) (childrenOf fragmentDoc)) = ''<p>First</p><div>Second</div><p>Third</p>'' \<and>
   html basicProvider fullDoc rootSelector = Some ''<html><body><p>First</p><div>Second</div></body></html>'' \<and>
   map_option (innerHTML basicProvider) (documentElement fullDoc)
     = Some ''<body><p>First</p><div>Second</div></body>'' \<and>
   map_option (innerHTML basicProvider) (nodeAt fullDoc [0, 0]) = Some ''<p>First</p><div>Second</div>''"
proof (intro conjI)
  show "html P (Document ds) (Selector (NodeRef [] # rs) q) = map_option (outerHTML P) (find isElement ds)"
    by (simp add: html_def documentElement_def split: option.splits)
  show "outerHtml P (Document ds) (Selector (NodeRef [] # rs) q) = map_option (outerHTML P) (find isElement ds)"
    by (simp add: outerHtml_def documentElement_def split: option.splits)
  show "html basicProvider fragmentDoc rootSelector = Some ''<p>First</p>''"
    by code_simp
  show "outerHtml basicProvider fragmentDoc rootSelector = Some ''<p>First</p>''"
    by code_simp
  show "concat (map (outerHTML basicProvider) (childrenOf fragmentDoc)) = ''<p>First</p><div>Second</div><p>Third</p>''"
    by code_simp
  show "html basicProvider fullDoc rootSelector = Some ''<html><body><p>First</p><div>Second</div></body></html>''"
    by code_simp
  show "map_option (innerHTML basicProvider) (documentElement fullDoc)
     = Some ''<body><p>First</p><div>Second</div></body>''"
    by code_simp
  show "map_option (innerHTML basicProvider) (nodeAt fullDoc [0, 0]) = Some ''<p>First</p><div>Second</div>''"
    by code_simp
qed

section \<open>Properties of the parser\<close>

subsection \<open>Termination\<close>





subsection \<open>A call stack deeper than the expression is long is enough\<close>










subsection \<open>The log\<close>






subsection \<open>Nested \<open>not(...)\<close>\<close>


































section \<open>Properties of the evaluator\<close>

lemma strIncludes_empty: "strIncludes [] v \<longleftrightarrow> v = []"
  by (simp add: strIncludes_def)

lemma startsWith_empty: "startsWith [] v \<longleftrightarrow> v = []"
  by (auto simp: startsWith_def)

lemma endsWith_empty: "endsWith [] v \<longleftrightarrow> v = []"
  by (auto simp: endsWith_def startsWith_def)

text \<open>
  C5, as the code has it. On an element that lacks the attribute, the existence
  check is false, equality is false for every value (also for the empty string),
  inequality is true for every value, and \<open>contains\<close>, \<open>starts-with\<close> and \<open>ends-with\<close>
  compare against the empty string (they hold exactly for an empty argument).
\<close>

theorem missing_attribute_predicates:
  "nodeType doc node = 1 \<and> getAttribute doc node name = None \<longrightarrow>
     evaluatePredicate P doc node (AttrExists name) allNodes = Some False \<and>
     evaluatePredicate P doc node (AttrEquals name v) allNodes = Some False \<and>
     evaluatePredicate P doc node (AttrNotEquals name v) allNodes = Some True \<and>
     evaluatePredicate P doc node (AttrContains name v) allNodes = Some (strIncludes [] v) \<and>
     evaluatePredicate P doc node (AttrStartsWith name v) allNodes = Some (startsWith [] v) \<and>
     evaluatePredicate P doc node (AttrEndsWith name v) allNodes = Some (endsWith [] v) \<and>
     (strIncludes [] v \<longleftrightarrow> v = []) \<and> (startsWith [] v \<longleftrightarrow> v = []) \<and> (endsWith [] v \<longleftrightarrow> v = [])"
  by (simp add: hasAttribute_def strIncludes_empty startsWith_empty endsWith_empty)

theorem missing_attribute_predicates_witness:
  "nodeType (Document [Element ''DIV'' [(''id'', ''x'')] []]) (NodeRef [0]) = 1 \<and>
   getAttribute (Document [Element ''DIV'' [(''id'', ''x'')] []]) (NodeRef [0]) ''name'' = None \<and>
   evaluatePredicate basicProvider (Document [Element ''DIV'' [(''id'', ''x'')] []]) (NodeRef [0])
     (AttrExists ''name'') [NodeRef [0]] = Some False \<and>
   evaluatePredicate basicProvider (Document [Element ''DIV'' [(''id'', ''x'')] []]) (NodeRef [0])
     (AttrNotEquals ''name'' ''a'') [NodeRef [0]] = Some True \<and>
   evaluatePredicate basicProvider (Document [Element ''DIV'' [(''id'', ''x'')] []]) (NodeRef [0])
     (AttrContains ''name'' []) [NodeRef [0]] = Some True \<and>
   evaluatePredicate basicProvider (Document [Element ''DIV'' [(''id'', ''x'')] []]) (NodeRef [0])
     (AttrStartsWith ''name'' ''a'') [NodeRef [0]] = Some False"
  using missing_attribute_predicates
    [of "Document [Element ''DIV'' [(''id'', ''x'')] []]" "NodeRef [0]" "''name''" basicProvider
        "[NodeRef [0]]" "''a''"]
    missing_attribute_predicates
    [of "Document [Element ''DIV'' [(''id'', ''x'')] []]" "NodeRef [0]" "''name''" basicProvider
        "[NodeRef [0]]" "[]"]
  by (simp add: startsWith_def)

text \<open>
  C5 as stated fails: on \<open><div id="x">\<close>, which has no \<open>name\<close> attribute, \<open>[@name=""]\<close>
  does not hold and \<open>[@name!=""]\<close> holds, so equality and inequality do not read a
  missing attribute as the empty string.
\<close>

theorem missing_attribute_equals_counterexample:
  "getAttribute (Document [Element ''DIV'' [(''id'', ''x'')] []]) (NodeRef [0]) ''name'' = None \<and>
   evaluatePredicate basicProvider (Document [Element ''DIV'' [(''id'', ''x'')] []]) (NodeRef [0])
     (AttrEquals ''name'' []) [NodeRef [0]] = Some False \<and>
   evaluatePredicate basicProvider (Document [Element ''DIV'' [(''id'', ''x'')] []]) (NodeRef [0])
     (AttrNotEquals ''name'' []) [NodeRef [0]] = Some True \<and>
   parsePredicateContent (callStack basicProvider) ''@name=\"\"'' = Inr (Some (AttrEquals ''name'' [])) \<and>
   xpath basicProvider (Document [Element ''DIV'' [(''id'', ''x'')] []]) (Selector [NodeRef []] [])
     ''//div[@name=\"\"]'' = Selector [] ''//div[@name=\"\"]''"
  by code_simp


subsection \<open>The candidates of an axis are distinct nodes\<close>

















lemma below_index: "below np i (NodeRef (np @ j # q)) \<Longrightarrow> i \<le> j"
  by (auto simp: below_def)










subsection \<open>Positions\<close>





















section \<open>Properties of the union\<close>

lemma addUnseen_first_seen:
  "distinct acc \<Longrightarrow> foldl addUnseen acc xs = rev (remdups (rev (acc @ xs)))"
proof (induction xs rule: rev_induct)
  case Nil
  then show ?case by (simp add: distinct_remdups_id)
next
  case (snoc x xs)
  then have IH: "foldl addUnseen acc xs = rev (remdups (rev (acc @ xs)))"
    by simp
  have "set (foldl addUnseen acc xs) = set acc \<union> set xs"
    unfolding IH by auto
  then show ?case
    unfolding foldl_append IH[symmetric] by (auto simp: addUnseen_def IH)
qed

lemma addUnseen_distinct: "distinct acc \<Longrightarrow> distinct (foldl addUnseen acc xs)"
  by (simp add: addUnseen_first_seen)

lemma xpathUnionLoop_state:
  "xpathUnionLoop P doc nodes parts (S0, N0) = Some (S, N) \<Longrightarrow>
   S = S0 @ concat (map (\<lambda>part. partStrings (selectorEvaluateSingleXPath P doc nodes (trim part))) parts) \<and>
   N = foldl addUnseen N0
         (concat (map (\<lambda>part. partNodes (selectorEvaluateSingleXPath P doc nodes (trim part))) parts))"
proof (induction parts arbitrary: S0 N0)
  case Nil
  then show ?case by simp
next
  case (Cons part parts)
  show ?case
  proof (cases "selectorEvaluateSingleXPath P doc nodes (trim part)")
    case None
    with Cons.prems show ?thesis by simp
  next
    case (Some r)
    show ?thesis
    proof (cases r)
      case (Strings vs)
      with Some Cons.prems have "xpathUnionLoop P doc nodes parts (S0 @ vs, N0) = Some (S, N)"
        by simp
      from Cons.IH[OF this] Some Strings show ?thesis
        by (simp add: partStrings_def partNodes_def)
    next
      case (Nodes ns)
      with Some Cons.prems have "xpathUnionLoop P doc nodes parts (S0, foldl addUnseen N0 ns) = Some (S, N)"
        by simp
      from Cons.IH[OF this] Some Nodes show ?thesis
        by (simp add: partStrings_def partNodes_def)
    qed
  qed
qed

lemma unionAdd_string: "unionAdd (all, seen) (XString s) = (all @ [XString s], seen)"
  by (simp add: unionAdd_def)

lemma unionAdd_node:
  "unionAdd (all, seen) (XNode n) = (if n \<in> set seen then (all, seen) else (all @ [XNode n], seen @ [n]))"
  by (simp add: unionAdd_def)

lemma unionAdd_state:
  "foldl unionAdd (all, nodesOfResults all) rs = (all', seen') \<Longrightarrow>
   stringsOf all' = stringsOf all @ stringsOf rs \<and>
   nodesOfResults all' = foldl addUnseen (nodesOfResults all) (nodesOfResults rs) \<and>
   seen' = nodesOfResults all'"
proof (induction rs arbitrary: all)
  case Nil
  then show ?case by auto
next
  case (Cons r rs)
  have app_s: "stringsOf (xs @ ys) = stringsOf xs @ stringsOf ys" for xs ys
    by (induction xs rule: stringsOf.induct) auto
  have app_n: "nodesOfResults (xs @ ys) = nodesOfResults xs @ nodesOfResults ys" for xs ys
    by (induction xs rule: nodesOfResults.induct) auto
  show ?case
  proof (cases r)
    case (XString s)
    with Cons.prems have "foldl unionAdd (all @ [XString s], nodesOfResults (all @ [XString s])) rs = (all', seen')"
      by (simp add: unionAdd_string unionAdd_node app_n)
    from Cons.IH[OF this] XString show ?thesis
      by (simp add: app_s app_n)
  next
    case (XNode n)
    show ?thesis
    proof (cases "n \<in> set (nodesOfResults all)")
      case True
      with XNode Cons.prems have "foldl unionAdd (all, nodesOfResults all) rs = (all', seen')"
        by (simp add: unionAdd_node)
      from Cons.IH[OF this] XNode True show ?thesis
        by (simp add: addUnseen_def)
    next
      case False
      with XNode Cons.prems have "foldl unionAdd (all @ [XNode n], nodesOfResults (all @ [XNode n])) rs = (all', seen')"
        by (simp add: unionAdd_string unionAdd_node app_n)
      from Cons.IH[OF this] XNode False show ?thesis
        by (simp add: addUnseen_def app_s app_n)
    qed
  qed
qed

lemma unionLoop_state:
  "unionLoop P doc contexts parts (all, nodesOfResults all) = Some rs \<Longrightarrow>
   stringsOf rs = stringsOf all @
      concat (map (\<lambda>part. stringsOf (resultsOf (evaluateSingleXPath P doc (trim part) contexts))) parts) \<and>
   nodesOfResults rs = foldl addUnseen (nodesOfResults all)
      (concat (map (\<lambda>part. nodesOfResults (resultsOf (evaluateSingleXPath P doc (trim part) contexts))) parts))"
proof (induction parts arbitrary: all)
  case Nil
  then show ?case by simp
next
  case (Cons part parts)
  show ?case
  proof (cases "evaluateSingleXPath P doc (trim part) contexts")
    case None
    with Cons.prems show ?thesis by simp
  next
    case (Some partResults)
    obtain all' seen' where st: "foldl unionAdd (all, nodesOfResults all) partResults = (all', seen')"
      by fastforce
    from unionAdd_state[OF st] have u:
      "stringsOf all' = stringsOf all @ stringsOf partResults"
      "nodesOfResults all' = foldl addUnseen (nodesOfResults all) (nodesOfResults partResults)"
      "seen' = nodesOfResults all'"
      by simp_all
    from Cons.prems Some st u(3) have "unionLoop P doc contexts parts (all', nodesOfResults all') = Some rs"
      by simp
    from Cons.IH[OF this] u Some show ?thesis
      by (simp add: resultsOf_def)
  qed
qed

lemma articleDoc_union_nodes:
  "xpath basicProvider articleDoc rootSelector ''//h1 | //h1''
     = Selector [NodeRef [0, 0], NodeRef [0, 1]] ''//h1 | //h1''"
  by code_simp

lemma articleDoc_single_nodes:
  "xpath basicProvider articleDoc rootSelector ''//h1'' = Selector [NodeRef [0, 0], NodeRef [0, 1]] ''//h1''"
  by code_simp

lemma articleDoc_union_text:
  "xpath basicProvider articleDoc rootSelector ''//h1::text | //h1::text''
     = TextSelector [''Title'', ''Again'', ''Title'', ''Again''] ''//h1::text | //h1::text''"
  by code_simp

lemma xpath_union_result:
  "length (splitXPathUnion q) > 1 \<Longrightarrow>
   xpathUnionLoop P doc (nodesOf this) (splitXPathUnion q) ([], []) = Some (allStrings, allNodes) \<Longrightarrow>
   xpath P doc this q = (if length allStrings > 0 then TextSelector allStrings q else Selector allNodes q)"
  by (simp add: xpath_def)

lemma trim_Nil: "trim [] = []"
  by (simp add: trim_def)

lemma evaluateXPath_union:
  "trim expr \<noteq> [] \<Longrightarrow> length (splitUnion expr) > 1 \<Longrightarrow>
   evaluateXPath P doc expr contexts = unionLoop P doc contexts (splitUnion expr) ([], [])"
  by (auto simp: evaluateXPath_def trim_Nil)

lemma splitUnionStep_bar_top:
  "splitUnionStep (before, current, 0, None) (CHR ''|'') = (before @ [trim current], [], 0, None)"
  by (simp add: splitUnionStep_def)

lemma splitUnionStep_bar_nested:
  "depth \<noteq> 0 \<Longrightarrow>
   splitUnionStep (before, current, depth, None) (CHR ''|'') = (before, current @ ''|'', depth, None)"
  by (simp add: splitUnionStep_def)

lemma splitUnionStep_bar_quoted:
  "quote \<noteq> CHR ''|'' \<Longrightarrow>
   splitUnionStep (before, current, depth, Some quote) (CHR ''|'') = (before, current @ ''|'', depth, Some quote)"
  by (auto simp: splitUnionStep_def)

lemma splitUnion_examples:
  "splitUnion ''//a|//b'' = [''//a'', ''//b'']"
  "splitUnion ''//a[b|c]'' = [''//a[b|c]'']"
  "splitUnion ''(//a|//b)'' = [''(//a|//b)'']"
  "splitUnion ''//a[@title=\"x|y\"] | //h1'' = [''//a[@title=\"x|y\"]'', ''//h1'']"
  "splitUnion ''//a[@t=\"]|\"] | //b'' = [''//a[@t=\"]|\"]'', ''//b'']"
  by code_simp+

lemma articleDoc_evaluateXPath:
  "evaluateXPath basicProvider articleDoc ''//h1 | //h1'' [NodeRef []]
     = Some [XNode (NodeRef [0, 0]), XNode (NodeRef [0, 1])]"
  "evaluateXPath basicProvider articleDoc ''//h1'' [NodeRef []]
     = Some [XNode (NodeRef [0, 0]), XNode (NodeRef [0, 1])]"
  "evaluateXPath basicProvider articleDoc ''//a/@href | //a/@href | //a | //a'' [NodeRef []]
     = Some [XString ''/x'', XString ''/x'', XNode (NodeRef [0, 2])]"
  by code_simp+

lemma barDoc_union:
  "evaluateXPath basicProvider barDoc ''//a[@title=\"x|y\"] | //h1'' [NodeRef []]
     = Some [XNode (NodeRef [0, 0]), XNode (NodeRef [0, 1])]"
  "xpath basicProvider barDoc rootSelector ''//a[@title=\"x|y\"] | //h1''
     = Selector [NodeRef [0, 0], NodeRef [0, 1]] ''//a[@title=\"x|y\"] | //h1''"
  by code_simp+

text \<open>
  C4. An expression is split at every \<open>|\<close> met at bracket depth 0 and outside
  quotes, and at no other \<open>|\<close>: a \<open>|\<close> inside brackets, parentheses or a quoted
  string stays in its part. \<open>evaluateXPath\<close> runs its union loop over these parts
  whenever there are at least two, and \<open>Selector.xpath\<close> does the same with its own
  loop. When every branch of a union can be evaluated, the strings of the
  branches are concatenated as they are, and the node list is the concatenation
  of the branches' nodes with every node kept at its first occurrence only.
  \<open>//h1 | //h1\<close> selects the same nodes as \<open>//h1\<close>, and \<open>//h1::text | //h1::text\<close> yields
  every text twice.
\<close>

theorem union_deduplicates_nodes_only:
  "(xpathUnionLoop P doc nodes parts ([], []) = Some (allStrings, allNodes) \<longrightarrow>
      allStrings = concat (map (\<lambda>part. partStrings (selectorEvaluateSingleXPath P doc nodes (trim part))) parts) \<and>
      allNodes = rev (remdups (rev
        (concat (map (\<lambda>part. partNodes (selectorEvaluateSingleXPath P doc nodes (trim part))) parts)))) \<and>
      distinct allNodes) \<and>
   (length (splitXPathUnion q) > 1 \<and>
    xpathUnionLoop P doc (nodesOf this) (splitXPathUnion q) ([], []) = Some (allStrings, allNodes) \<longrightarrow>
      xpath P doc this q = (if length allStrings > 0 then TextSelector allStrings q else Selector allNodes q)) \<and>
   (unionLoop P doc contexts parts ([], []) = Some rs \<longrightarrow>
      stringsOf rs =
        concat (map (\<lambda>part. stringsOf (resultsOf (evaluateSingleXPath P doc (trim part) contexts))) parts) \<and>
      nodesOfResults rs = rev (remdups (rev
        (concat (map (\<lambda>part. nodesOfResults (resultsOf (evaluateSingleXPath P doc (trim part) contexts)))
           parts))))) \<and>
   (trim expr \<noteq> [] \<and> length (splitUnion expr) > 1 \<longrightarrow>
      evaluateXPath P doc expr contexts = unionLoop P doc contexts (splitUnion expr) ([], [])) \<and>
   (trim expr \<noteq> [] \<and> length (splitUnion expr) > 1 \<and> evaluateXPath P doc expr contexts = Some results \<longrightarrow>
      stringsOf results =
        concat (map (\<lambda>part. stringsOf (resultsOf (evaluateSingleXPath P doc (trim part) contexts)))
          (splitUnion expr)) \<and>
      nodesOfResults results = rev (remdups (rev
        (concat (map (\<lambda>part. nodesOfResults (resultsOf (evaluateSingleXPath P doc (trim part) contexts)))
           (splitUnion expr))))) \<and>
      distinct (nodesOfResults results)) \<and>
   splitXPathUnion expr = splitUnion expr \<and>
   splitUnion expr = splitFinish (foldl splitUnionStep ([], [], 0, None) expr) \<and>
   splitUnionStep (before, current, 0, None) (CHR ''|'') = (before @ [trim current], [], 0, None) \<and>
   (depth \<noteq> 0 \<longrightarrow>
      splitUnionStep (before, current, depth, None) (CHR ''|'') = (before, current @ ''|'', depth, None)) \<and>
   (quote \<noteq> CHR ''|'' \<longrightarrow>
      splitUnionStep (before, current, depth, Some quote) (CHR ''|'')
        = (before, current @ ''|'', depth, Some quote)) \<and>
   splitUnion ''//a|//b'' = [''//a'', ''//b''] \<and>
   splitUnion ''//a[b|c]'' = [''//a[b|c]''] \<and>
   splitUnion ''(//a|//b)'' = [''(//a|//b)''] \<and>
   splitUnion ''//a[@title=\"x|y\"] | //h1'' = [''//a[@title=\"x|y\"]'', ''//h1''] \<and>
   splitUnion ''//a[@t=\"]|\"] | //b'' = [''//a[@t=\"]|\"]'', ''//b''] \<and>
   xpath basicProvider articleDoc rootSelector ''//h1 | //h1''
     = Selector [NodeRef [0, 0], NodeRef [0, 1]] ''//h1 | //h1'' \<and>
   xpath basicProvider articleDoc rootSelector ''//h1'' = Selector [NodeRef [0, 0], NodeRef [0, 1]] ''//h1'' \<and>
   xpath basicProvider articleDoc rootSelector ''//h1::text | //h1::text''
     = TextSelector [''Title'', ''Again'', ''Title'', ''Again''] ''//h1::text | //h1::text'' \<and>
   evaluateXPath basicProvider articleDoc ''//h1 | //h1'' [NodeRef []]
     = Some [XNode (NodeRef [0, 0]), XNode (NodeRef [0, 1])] \<and>
   evaluateXPath basicProvider articleDoc ''//h1'' [NodeRef []]
     = Some [XNode (NodeRef [0, 0]), XNode (NodeRef [0, 1])] \<and>
   evaluateXPath basicProvider articleDoc ''//a/@href | //a/@href | //a | //a'' [NodeRef []]
     = Some [XString ''/x'', XString ''/x'', XNode (NodeRef [0, 2])] \<and>
   evaluateXPath basicProvider barDoc ''//a[@title=\"x|y\"] | //h1'' [NodeRef []]
     = Some [XNode (NodeRef [0, 0]), XNode (NodeRef [0, 1])] \<and>
   xpath basicProvider barDoc rootSelector ''//a[@title=\"x|y\"] | //h1''
     = Selector [NodeRef [0, 0], NodeRef [0, 1]] ''//a[@title=\"x|y\"] | //h1''"
proof (intro conjI impI)
  assume a: "xpathUnionLoop P doc nodes parts ([], []) = Some (allStrings, allNodes)"
  from xpathUnionLoop_state[OF a]
  show "allStrings = concat (map (\<lambda>part. partStrings (selectorEvaluateSingleXPath P doc nodes (trim part))) parts)"
    by simp
  from xpathUnionLoop_state[OF a]
  show "allNodes = rev (remdups (rev
        (concat (map (\<lambda>part. partNodes (selectorEvaluateSingleXPath P doc nodes (trim part))) parts))))"
    by (simp add: addUnseen_first_seen)
  from xpathUnionLoop_state[OF a] show "distinct allNodes"
    by (simp add: addUnseen_distinct)
next
  assume "length (splitXPathUnion q) > 1 \<and>
    xpathUnionLoop P doc (nodesOf this) (splitXPathUnion q) ([], []) = Some (allStrings, allNodes)"
  then show "xpath P doc this q = (if length allStrings > 0 then TextSelector allStrings q else Selector allNodes q)"
    using xpath_union_result by blast
next
  assume a: "unionLoop P doc contexts parts ([], []) = Some rs"
  then have a': "unionLoop P doc contexts parts ([], nodesOfResults []) = Some rs"
    by simp
  from unionLoop_state[OF a']
  show "stringsOf rs =
        concat (map (\<lambda>part. stringsOf (resultsOf (evaluateSingleXPath P doc (trim part) contexts))) parts)"
    by simp
  from unionLoop_state[OF a']
  show "nodesOfResults rs = rev (remdups (rev
        (concat (map (\<lambda>part. nodesOfResults (resultsOf (evaluateSingleXPath P doc (trim part) contexts)))
           parts))))"
    by (simp add: addUnseen_first_seen)
next
  assume "trim expr \<noteq> [] \<and> length (splitUnion expr) > 1"
  then show "evaluateXPath P doc expr contexts = unionLoop P doc contexts (splitUnion expr) ([], [])"
    using evaluateXPath_union by blast
next
  assume b: "trim expr \<noteq> [] \<and> length (splitUnion expr) > 1 \<and> evaluateXPath P doc expr contexts = Some results"
  then have "unionLoop P doc contexts (splitUnion expr) ([], []) = Some results"
    using evaluateXPath_union[of expr P doc contexts] by simp
  then have b': "unionLoop P doc contexts (splitUnion expr) ([], nodesOfResults []) = Some results"
    by simp
  from unionLoop_state[OF b']
  show "stringsOf results =
        concat (map (\<lambda>part. stringsOf (resultsOf (evaluateSingleXPath P doc (trim part) contexts)))
          (splitUnion expr))"
    by simp
  from unionLoop_state[OF b']
  show n: "nodesOfResults results = rev (remdups (rev
        (concat (map (\<lambda>part. nodesOfResults (resultsOf (evaluateSingleXPath P doc (trim part) contexts)))
           (splitUnion expr)))))"
    by (simp add: addUnseen_first_seen)
  show "distinct (nodesOfResults results)"
    unfolding n by simp
next
  show "splitXPathUnion expr = splitUnion expr"
    by (rule splitXPathUnion_def)
next
  show "splitUnion expr = splitFinish (foldl splitUnionStep ([], [], 0, None) expr)"
    by (rule splitUnion_def)
next
  show "splitUnionStep (before, current, 0, None) (CHR ''|'') = (before @ [trim current], [], 0, None)"
    by (rule splitUnionStep_bar_top)
next
  assume "depth \<noteq> 0"
  then show "splitUnionStep (before, current, depth, None) (CHR ''|'') = (before, current @ ''|'', depth, None)"
    by (rule splitUnionStep_bar_nested)
next
  assume "quote \<noteq> CHR ''|''"
  then show "splitUnionStep (before, current, depth, Some quote) (CHR ''|'')
        = (before, current @ ''|'', depth, Some quote)"
    by (rule splitUnionStep_bar_quoted)
qed (rule splitUnion_examples articleDoc_union_nodes articleDoc_single_nodes articleDoc_union_text
       articleDoc_evaluateXPath barDoc_union)+

theorem union_deduplicates_nodes_only_witness:
  "xpathUnionLoop basicProvider articleDoc [NodeRef []] [''//h1'', ''//h1'', ''//a''] ([], [])
     = Some ([], [NodeRef [0, 0], NodeRef [0, 1], NodeRef [0, 2]]) \<and>
   distinct [NodeRef [0, 0], NodeRef [0, 1], NodeRef [0, 2]] \<and>
   length (splitXPathUnion ''//h1 | //h1 | //a'') > 1 \<and>
   xpathUnionLoop basicProvider articleDoc (nodesOf rootSelector) (splitXPathUnion ''//h1 | //h1 | //a'') ([], [])
     = Some ([], [NodeRef [0, 0], NodeRef [0, 1], NodeRef [0, 2]]) \<and>
   xpath basicProvider articleDoc rootSelector ''//h1 | //h1 | //a''
     = Selector [NodeRef [0, 0], NodeRef [0, 1], NodeRef [0, 2]] ''//h1 | //h1 | //a'' \<and>
   unionLoop basicProvider articleDoc [NodeRef []] [''//a/@href'', ''//a/@href'', ''//a'', ''//a''] ([], [])
     = Some [XString ''/x'', XString ''/x'', XNode (NodeRef [0, 2])] \<and>
   stringsOf [XString ''/x'', XString ''/x'', XNode (NodeRef [0, 2])] = [''/x'', ''/x''] \<and>
   nodesOfResults [XString ''/x'', XString ''/x'', XNode (NodeRef [0, 2])] = [NodeRef [0, 2]] \<and>
   trim ''//a/@href | //a/@href | //a | //a'' \<noteq> [] \<and>
   length (splitUnion ''//a/@href | //a/@href | //a | //a'') > 1 \<and>
   evaluateXPath basicProvider articleDoc ''//a/@href | //a/@href | //a | //a'' [NodeRef []]
     = unionLoop basicProvider articleDoc [NodeRef []] (splitUnion ''//a/@href | //a/@href | //a | //a'') ([], []) \<and>
   evaluateXPath basicProvider articleDoc ''//a/@href | //a/@href | //a | //a'' [NodeRef []]
     = Some [XString ''/x'', XString ''/x'', XNode (NodeRef [0, 2])] \<and>
   distinct (nodesOfResults [XString ''/x'', XString ''/x'', XNode (NodeRef [0, 2])]) \<and>
   splitUnionStep ([], ''//a[b'', 1, None) (CHR ''|'') = ([], ''//a[b|'', 1, None) \<and>
   splitUnionStep ([], ''//a[@t=\"x'', 1, Some (CHR 0x22)) (CHR ''|'') = ([], ''//a[@t=\"x|'', 1, Some (CHR 0x22))"
proof -
  have h1: "xpathUnionLoop basicProvider articleDoc [NodeRef []] [''//h1'', ''//h1'', ''//a''] ([], [])
     = Some ([], [NodeRef [0, 0], NodeRef [0, 1], NodeRef [0, 2]])"
    by code_simp
  have h2: "length (splitXPathUnion ''//h1 | //h1 | //a'') > 1"
    by code_simp
  have h3: "xpathUnionLoop basicProvider articleDoc (nodesOf rootSelector)
      (splitXPathUnion ''//h1 | //h1 | //a'') ([], [])
     = Some ([], [NodeRef [0, 0], NodeRef [0, 1], NodeRef [0, 2]])"
    by code_simp
  have h4: "unionLoop basicProvider articleDoc [NodeRef []] [''//a/@href'', ''//a/@href'', ''//a'', ''//a''] ([], [])
     = Some [XString ''/x'', XString ''/x'', XNode (NodeRef [0, 2])]"
    by code_simp
  have h5: "trim ''//a/@href | //a/@href | //a | //a'' \<noteq> [] \<and>
     length (splitUnion ''//a/@href | //a/@href | //a | //a'') > 1"
    by code_simp
  have h6: "evaluateXPath basicProvider articleDoc ''//a/@href | //a/@href | //a | //a'' [NodeRef []]
     = Some [XString ''/x'', XString ''/x'', XNode (NodeRef [0, 2])]"
    by code_simp
  have h7: "(1::int) \<noteq> 0" "CHR 0x22 \<noteq> CHR ''|''"
    by simp_all
  note T = union_deduplicates_nodes_only
    [where P=basicProvider and doc=articleDoc and nodes="[NodeRef []]"
       and parts="[''//h1'', ''//h1'', ''//a'']" and allStrings="[]"
       and allNodes="[NodeRef [0, 0], NodeRef [0, 1], NodeRef [0, 2]]" and q="''//h1 | //h1 | //a''"
       and this=rootSelector and contexts="[NodeRef []]"
       and rs="[XString ''/x'', XString ''/x'', XNode (NodeRef [0, 2])]"
       and expr="''//a/@href | //a/@href | //a | //a''"
       and results="[XString ''/x'', XString ''/x'', XNode (NodeRef [0, 2])]"
       and before="[]" and current="''//a[b''" and depth=1 and quote="CHR 0x22"]
  note U = union_deduplicates_nodes_only
    [where before="[]" and current="''//a[@t=\"x''" and depth=1 and quote="CHR 0x22"]
  from T h1 have c1: "distinct [NodeRef [0, 0], NodeRef [0, 1], NodeRef [0, 2]]"
    by blast
  from T h2 h3 have c2: "xpath basicProvider articleDoc rootSelector ''//h1 | //h1 | //a''
     = (if length ([] :: string list) > 0 then TextSelector [] ''//h1 | //h1 | //a''
        else Selector [NodeRef [0, 0], NodeRef [0, 1], NodeRef [0, 2]] ''//h1 | //h1 | //a'')"
    by blast
  from T h5 have c3: "evaluateXPath basicProvider articleDoc ''//a/@href | //a/@href | //a | //a'' [NodeRef []]
     = unionLoop basicProvider articleDoc [NodeRef []] (splitUnion ''//a/@href | //a/@href | //a | //a'') ([], [])"
    by blast
  from T h5 h6 have c4: "distinct (nodesOfResults [XString ''/x'', XString ''/x'', XNode (NodeRef [0, 2])])"
    by blast
  from T h7 have c5: "splitUnionStep ([], ''//a[b'', 1, None) (CHR ''|'') = ([], ''//a[b'' @ ''|'', 1, None)"
    by blast
  from U h7 have c6: "splitUnionStep ([], ''//a[@t=\"x'', 1, Some (CHR 0x22)) (CHR ''|'')
     = ([], ''//a[@t=\"x'' @ ''|'', 1, Some (CHR 0x22))"
    by blast
  show ?thesis
    using h1 h2 h3 h4 h5 h6 c1 c2 c3 c4 c5 c6 by simp
qed

lemma selectorEvaluateSingleXPath_strings:
  "evaluateXPath P doc (query (parseXPathPseudo q)) nodes = Some rs \<Longrightarrow> stringsOf rs \<noteq> [] \<Longrightarrow>
   selectorEvaluateSingleXPath P doc nodes q = Some (Strings (stringsOf rs))"
  by (simp add: selectorEvaluateSingleXPath_def Let_def)

text \<open>
  C9. When the branches of a union yield at least one string, the query returns
  the string-valued Selector of all the branches' strings, and no node of any
  branch. A single expression whose results contain a string likewise returns
  its strings only.
\<close>

theorem union_prefers_strings:
  "(length (splitXPathUnion q) > 1 \<and>
    xpathUnionLoop P doc (nodesOf this) (splitXPathUnion q) ([], []) = Some (allStrings, allNodes) \<and>
    allStrings \<noteq> [] \<longrightarrow>
      xpath P doc this q = TextSelector allStrings q \<and>
      allStrings = concat (map (\<lambda>part. partStrings (selectorEvaluateSingleXPath P doc (nodesOf this) (trim part)))
                             (splitXPathUnion q))) \<and>
   (evaluateXPath P doc (query (parseXPathPseudo q)) nodes = Some rs \<and> stringsOf rs \<noteq> [] \<longrightarrow>
      selectorEvaluateSingleXPath P doc nodes q = Some (Strings (stringsOf rs))) \<and>
   (length (splitXPathUnion q) \<le> 1 \<and>
    evaluateXPath P doc (query (parseXPathPseudo q)) (nodesOf this) = Some rs \<and> stringsOf rs \<noteq> [] \<longrightarrow>
      xpath P doc this q = TextSelector (stringsOf rs) q)"
proof (intro conjI impI)
  assume a: "length (splitXPathUnion q) > 1 \<and>
    xpathUnionLoop P doc (nodesOf this) (splitXPathUnion q) ([], []) = Some (allStrings, allNodes) \<and>
    allStrings \<noteq> []"
  then show "xpath P doc this q = TextSelector allStrings q"
    by (simp add: xpath_def)
  from a xpathUnionLoop_state[of P doc "nodesOf this" "splitXPathUnion q" "[]" "[]" allStrings allNodes]
  show "allStrings = concat (map (\<lambda>part. partStrings (selectorEvaluateSingleXPath P doc (nodesOf this) (trim part)))
                             (splitXPathUnion q))"
    by simp
next
  assume "evaluateXPath P doc (query (parseXPathPseudo q)) nodes = Some rs \<and> stringsOf rs \<noteq> []"
  then show "selectorEvaluateSingleXPath P doc nodes q = Some (Strings (stringsOf rs))"
    using selectorEvaluateSingleXPath_strings by blast
next
  assume a: "length (splitXPathUnion q) \<le> 1 \<and>
    evaluateXPath P doc (query (parseXPathPseudo q)) (nodesOf this) = Some rs \<and> stringsOf rs \<noteq> []"
  then have "selectorEvaluateSingleXPath P doc (nodesOf this) q = Some (Strings (stringsOf rs))"
    using selectorEvaluateSingleXPath_strings by blast
  with a show "xpath P doc this q = TextSelector (stringsOf rs) q"
    by (simp add: xpath_def)
qed

theorem union_prefers_strings_witness:
  "length (splitXPathUnion ''//li[2]::text | //li[1]'') > 1 \<and>
   xpathUnionLoop basicProvider listDoc (nodesOf rootSelector) (splitXPathUnion ''//li[2]::text | //li[1]'')
     ([], []) = Some ([''B''], [NodeRef [0, 0]]) \<and>
   xpath basicProvider listDoc rootSelector ''//li[2]::text | //li[1]''
     = TextSelector [''B''] ''//li[2]::text | //li[1]'' \<and>
   length (splitXPathUnion ''//a/@href'') \<le> 1 \<and>
   evaluateXPath basicProvider articleDoc (query (parseXPathPseudo ''//a/@href'')) (nodesOf rootSelector)
     = Some [XString ''/x''] \<and>
   selectorEvaluateSingleXPath basicProvider articleDoc (nodesOf rootSelector) ''//a/@href''
     = Some (Strings [''/x'']) \<and>
   xpath basicProvider articleDoc rootSelector ''//a/@href'' = TextSelector [''/x''] ''//a/@href''"
proof -
  have h1: "length (splitXPathUnion ''//li[2]::text | //li[1]'') > 1"
    by code_simp
  have h2: "xpathUnionLoop basicProvider listDoc (nodesOf rootSelector)
      (splitXPathUnion ''//li[2]::text | //li[1]'') ([], []) = Some ([''B''], [NodeRef [0, 0]])"
    by code_simp
  have h3: "[''B''] \<noteq> ([] :: string list)"
    by simp
  have h4: "length (splitXPathUnion ''//a/@href'') \<le> 1"
    by code_simp
  have h5: "evaluateXPath basicProvider articleDoc (query (parseXPathPseudo ''//a/@href'')) (nodesOf rootSelector)
     = Some [XString ''/x'']"
    by code_simp
  have h6: "stringsOf [XString ''/x''] \<noteq> []"
    by simp
  from union_prefers_strings
    [of "''//li[2]::text | //li[1]''" basicProvider listDoc rootSelector "[''B'']" "[NodeRef [0, 0]]"
        "nodesOf rootSelector" "[]"] h1 h2 h3
  have c1: "xpath basicProvider listDoc rootSelector ''//li[2]::text | //li[1]''
     = TextSelector [''B''] ''//li[2]::text | //li[1]''"
    by blast
  from union_prefers_strings
    [of "''//a/@href''" basicProvider articleDoc rootSelector "[]" "[]"
        "nodesOf rootSelector" "[XString ''/x'']"] h4 h5 h6
  have c2: "selectorEvaluateSingleXPath basicProvider articleDoc (nodesOf rootSelector) ''//a/@href''
       = Some (Strings (stringsOf [XString ''/x'']))"
    and c3: "xpath basicProvider articleDoc rootSelector ''//a/@href''
       = TextSelector (stringsOf [XString ''/x'']) ''//a/@href''"
    by blast+
  show ?thesis
    using h1 h2 h4 h5 c1 c2 c3 by simp
qed


section \<open>Properties of the regular-expression projection\<close>

text \<open>
  C6 at two patterns. \<open>/\(a\)/\<close> has no capturing group, yet its source contains
  \<open>(\<close>, so \<open>extractRegex\<close> runs the group loop and emits nothing where the full
  matches are \<open>(a)\<close> and \<open>(a)\<close>. \<open>/(?:a)(b)/\<close> has a capturing group, yet its source
  starts with \<open>(?:\<close>, so \<open>extractRegex\<close> emits the full matches where the captured
  values are \<open>b\<close> and \<open>b\<close>.
\<close>

theorem extractRegex_group_detection:
  "hasGroups escapedParenSource \<and>
   extractRegex exampleEngine (PRegExp escapedParenSource []) ''x(a)y(a)'' = Some [] \<and>
   matchAllLoop (exampleEngine escapedParenSource ''g'' ''x(a)y(a)'') (length ''x(a)y(a)'') 0 []
     = Some [''(a)'', ''(a)''] \<and>
   \<not> hasGroups ''(?:a)(b)'' \<and>
   extractRegex exampleEngine (PString ''(?:a)(b)'') ''ab ab'' = Some [''ab'', ''ab''] \<and>
   execLoop (exampleEngine ''(?:a)(b)'' ''g'' ''ab ab'') (length ''ab ab'') 0 [] = Some [''b'', ''b'']"
  by code_simp


end
